theory Spec2Isabelle
  imports Complex_Main "HOL-Library.Sublist"
begin

section \<open>Python values used by the server\<close>

text \<open>
  Python strings are modelled as \<open>string\<close>, the UTF-8 bytes of the text. Python's
  unbounded integers are \<open>int\<close>. \<open>str_int\<close> is \<^verbatim>\<open>str(n)\<close> as an f-string
  applies it to an integer: decimal digits, a leading minus sign for a negative number.
\<close>

definition digit_char :: "nat \<Rightarrow> char" where
  "digit_char d = ''0123456789'' ! d"

fun str_nat :: "nat \<Rightarrow> string" where
  "str_nat n =
     (if n < 10 then [digit_char n]
      else str_nat (n div 10) @ [digit_char (n mod 10)])"

declare str_nat.simps [simp del]

definition str_int :: "int \<Rightarrow> string" where
  "str_int i = (if i < 0 then CHR ''-'' # str_nat (nat (- i)) else str_nat (nat i))"

section \<open>The data model (the three dataclasses)\<close>

text \<open>
  The dataclasses \<^verbatim>\<open>NodeMetrics\<close>, \<^verbatim>\<open>PodMetrics\<close> and \<^verbatim>\<open>ClusterHealth\<close>, field by
  field. An \<^verbatim>\<open>Optional[str]\<close> is a \<open>string option\<close>. The three utilization fields are
  Python floats; the only float the program ever builds is \<^verbatim>\<open>0.0\<close>, and they are
  modelled as \<open>real\<close>.
\<close>

record NodeMetrics =
  name :: string
  cpu_usage :: string
  memory_usage :: string
  disk_usage :: string
  status :: string
  age :: string
  version :: string
  instance_type :: "string option"
  zone :: "string option"

record PodMetrics =
  name :: string
  namespace :: string
  status :: string
  cpu_usage :: string
  memory_usage :: string
  restarts :: int
  age :: string
  node :: string

record ClusterHealth =
  overall_status :: string
  node_count :: int
  healthy_nodes :: int
  unhealthy_nodes :: int
  total_pods :: int
  running_pods :: int
  pending_pods :: int
  failed_pods :: int
  cpu_utilization :: real
  memory_utilization :: real
  disk_utilization :: real
  critical_issues :: "string list"
  warnings :: "string list"
  recommendations :: "string list"

section \<open>The health classifier\<close>

text \<open>
  \<^verbatim>\<open>sum(1 for x in xs if c(x))\<close> counts the elements that satisfy \<open>c\<close>.
\<close>

definition count_where :: "('a \<Rightarrow> bool) \<Rightarrow> 'a list \<Rightarrow> int" where
  "count_where c xs = int (length (filter c xs))"

text \<open>
  The list comprehension of line 306:
  \<^verbatim>\<open>high_restart_pods = [pod for pod in pods if pod.restarts > 5]\<close>.
\<close>

definition high_restart_pods :: "PodMetrics list \<Rightarrow> PodMetrics list" where
  "high_restart_pods pods = filter (\<lambda>pod. restarts pod > 5) pods"

text \<open>
  \<^verbatim>\<open>KubernetesClient.analyze_cluster_health\<close> (lines 273 to 341), from the point where
  the two listings have been fetched: \<open>nodes\<close> and \<open>pods\<close> are the values of
  \<^verbatim>\<open>await self.get_nodes_metrics()\<close> and \<^verbatim>\<open>await self.get_pods_metrics()\<close>. Each
  \<^verbatim>\<open>append\<close> to one of the three lists is a rebinding of the list, in the order of
  the source.
\<close>

definition analyze_cluster_health :: "NodeMetrics list \<Rightarrow> PodMetrics list \<Rightarrow> ClusterHealth" where
  "analyze_cluster_health nodes pods =
    (let healthy = count_where (\<lambda>node. NodeMetrics.status node = ''Ready'') nodes;
         unhealthy = int (length nodes) - healthy;
         running = count_where (\<lambda>pod. PodMetrics.status pod = ''Running'') pods;
         pending = count_where (\<lambda>pod. PodMetrics.status pod = ''Pending'') pods;
         failed = count_where
           (\<lambda>pod. PodMetrics.status pod \<in> set [''Failed'', ''CrashLoopBackOff'']) pods;
         cpu = 0;
         memory = 0;
         critical = [];
         warns = [];
         recs = [];
         critical = (if unhealthy > 0
           then critical @ [str_int unhealthy @ '' nodes are not ready''] else critical);
         critical = (if failed > 0
           then critical @ [str_int failed @ '' pods are in failed state''] else critical);
         warns = (if pending > 0
           then warns @ [str_int pending @ '' pods are pending''] else warns);
         high = high_restart_pods pods;
         warns = (if high \<noteq> []
           then warns @ [str_int (int (length high)) @ '' pods have high restart counts'']
           else warns);
         recs = (if unhealthy > 0
           then recs @ [''Investigate unhealthy nodes and consider replacement''] else recs);
         recs = (if pending > 0
           then recs @ [''Check resource constraints and node availability''] else recs);
         recs = (if high \<noteq> []
           then recs @ [''Investigate pods with high restart counts for stability issues'']
           else recs);
         overall = ''Healthy'';
         overall = (if critical \<noteq> [] then ''Critical''
                    else if warns \<noteq> [] then ''Warning'' else overall)
     in \<lparr>overall_status = overall,
         node_count = int (length nodes),
         healthy_nodes = healthy,
         unhealthy_nodes = unhealthy,
         total_pods = int (length pods),
         running_pods = running,
         pending_pods = pending,
         failed_pods = failed,
         cpu_utilization = cpu,
         memory_utilization = memory,
         disk_utilization = 0,
         critical_issues = critical,
         warnings = warns,
         recommendations = recs\<rparr>)"

section \<open>Payloads: JSON values and the Python operations on them\<close>

text \<open>
  What \<^verbatim>\<open>json.loads\<close> returns: \<^verbatim>\<open>None\<close>, a bool, an int, a float, a str, a list or a
  dict. A dict is the list of its items in insertion order (its keys are distinct).
\<close>

datatype json =
    JNull
  | JBool bool
  | JInt int
  | JFloat real
  | JStr string
  | JList "json list"
  | JObj "(string \<times> json) list"

text \<open>
  The exceptions the server's payload handling can raise. \<^verbatim>\<open>json.loads\<close> raises
  JSONDecodeError on a text that is not JSON and RecursionError on a text nested more
  deeply than the interpreter allows. \<open>OutsideModel\<close> is not a
  Python exception: the dataclasses annotate their fields (\<^verbatim>\<open>name: str\<close>,
  \<^verbatim>\<open>restarts: int\<close>) but Python does not enforce the annotation, so a payload whose
  leaf has another type makes Python build a record the typed records of this theory
  cannot hold. \<open>OutsideModel\<close> marks exactly those runs; it is produced only at the
  point where Python would build the record, after every step that can raise.
\<close>

datatype py_error =
    KeyError string
  | TypeError
  | AttributeError
  | JSONDecodeError
  | RecursionError
  | OutsideModel

text \<open>Sequencing of steps that may raise: the first exception ends the run.\<close>

definition and_then :: "'e + 'a \<Rightarrow> ('a \<Rightarrow> 'e + 'b) \<Rightarrow> 'e + 'b" where
  "and_then m f = (case m of Inl e \<Rightarrow> Inl e | Inr v \<Rightarrow> f v)"

text \<open>
  \<^verbatim>\<open>v[k]\<close> with a string key: a dict without the key raises KeyError, anything that
  is not a dict raises TypeError.
\<close>

definition subscript :: "json \<Rightarrow> string \<Rightarrow> py_error + json" where
  "subscript v k =
     (case v of
        JObj kvs \<Rightarrow> (case map_of kvs k of None \<Rightarrow> Inl (KeyError k) | Some x \<Rightarrow> Inr x)
      | _ \<Rightarrow> Inl TypeError)"

text \<open>\<^verbatim>\<open>v.get(k, d)\<close>: only a dict has the method.\<close>

definition py_get :: "json \<Rightarrow> string \<Rightarrow> json \<Rightarrow> py_error + json" where
  "py_get v k d =
     (case v of
        JObj kvs \<Rightarrow> (case map_of kvs k of None \<Rightarrow> Inr d | Some x \<Rightarrow> Inr x)
      | _ \<Rightarrow> Inl AttributeError)"

text \<open>
  \<^verbatim>\<open>for x in v\<close>: the elements of a list, the keys of a dict, the characters of a
  string (here its bytes: ASCII text); anything else is not iterable.
\<close>

definition py_iter :: "json \<Rightarrow> py_error + json list" where
  "py_iter v =
     (case v of
        JList xs \<Rightarrow> Inr xs
      | JObj kvs \<Rightarrow> Inr (map (\<lambda>kv. JStr (fst kv)) kvs)
      | JStr s \<Rightarrow> Inr (map (\<lambda>c. JStr [c]) s)
      | _ \<Rightarrow> Inl TypeError)"

text \<open>
  \<^verbatim>\<open>len(v)\<close>. The length of a string is its number of code points: the bytes of its
  UTF-8 form that are not continuation bytes.
\<close>

definition py_len :: "json \<Rightarrow> py_error + int" where
  "py_len v =
     (case v of
        JList xs \<Rightarrow> Inr (int (length xs))
      | JObj kvs \<Rightarrow> Inr (int (length kvs))
      | JStr s \<Rightarrow> Inr (int (length (filter (\<lambda>c. \<not> ((128::nat) \<le> of_char c \<and> of_char c < (192::nat))) s)))
      | _ \<Rightarrow> Inl TypeError)"

text \<open>\<^verbatim>\<open>k in v\<close> for a string \<open>k\<close>: substring, element or key.\<close>

definition py_in :: "string \<Rightarrow> json \<Rightarrow> py_error + bool" where
  "py_in k v =
     (case v of
        JStr s \<Rightarrow> Inr (sublist k s)
      | JList xs \<Rightarrow> Inr (JStr k \<in> set xs)
      | JObj kvs \<Rightarrow> Inr (k \<in> set (map fst kvs))
      | _ \<Rightarrow> Inl TypeError)"

text \<open>\<^verbatim>\<open>v.split(':')[-1]\<close>: the text after the last colon; only a str has \<^verbatim>\<open>split\<close>.\<close>

definition split_colon_last :: "json \<Rightarrow> py_error + string" where
  "split_colon_last v =
     (case v of
        JStr s \<Rightarrow> Inr (rev (takeWhile (\<lambda>c. c \<noteq> CHR '':'') (rev s)))
      | _ \<Rightarrow> Inl AttributeError)"

text \<open>
  The string methods the metrics parser uses: \<^verbatim>\<open>strip()\<close>, \<^verbatim>\<open>split('\n')\<close> and
  \<^verbatim>\<open>split()\<close>. Python's white space is the 29 code points for which \<^verbatim>\<open>str.isspace\<close>
  holds: U+0009 to U+000D, U+001C to U+0020, U+0085, U+00A0, U+1680, U+2000 to U+200A,
  U+2028, U+2029, U+202F, U+205F and U+3000. \<open>unicode_spaces\<close> lists them in UTF-8;
  none is the beginning of another. \<open>space_width\<close> is the number of bytes of the white
  space a text begins with (0 when it begins with none); the functions below skip that
  many bytes with a counter.
\<close>

definition unicode_spaces :: "string list" where
  "unicode_spaces =
     [[CHR 0x09],
      [CHR 0x0A],
      [CHR 0x0B],
      [CHR 0x0C],
      [CHR 0x0D],
      [CHR 0x1C],
      [CHR 0x1D],
      [CHR 0x1E],
      [CHR 0x1F],
      [CHR 0x20],
      [CHR 0xC2, CHR 0x85],
      [CHR 0xC2, CHR 0xA0],
      [CHR 0xE1, CHR 0x9A, CHR 0x80],
      [CHR 0xE2, CHR 0x80, CHR 0x80],
      [CHR 0xE2, CHR 0x80, CHR 0x81],
      [CHR 0xE2, CHR 0x80, CHR 0x82],
      [CHR 0xE2, CHR 0x80, CHR 0x83],
      [CHR 0xE2, CHR 0x80, CHR 0x84],
      [CHR 0xE2, CHR 0x80, CHR 0x85],
      [CHR 0xE2, CHR 0x80, CHR 0x86],
      [CHR 0xE2, CHR 0x80, CHR 0x87],
      [CHR 0xE2, CHR 0x80, CHR 0x88],
      [CHR 0xE2, CHR 0x80, CHR 0x89],
      [CHR 0xE2, CHR 0x80, CHR 0x8A],
      [CHR 0xE2, CHR 0x80, CHR 0xA8],
      [CHR 0xE2, CHR 0x80, CHR 0xA9],
      [CHR 0xE2, CHR 0x80, CHR 0xAF],
      [CHR 0xE2, CHR 0x81, CHR 0x9F],
      [CHR 0xE3, CHR 0x80, CHR 0x80]]"

definition space_width :: "string list \<Rightarrow> string \<Rightarrow> nat" where
  "space_width spaces s =
     (case filter (\<lambda>w. prefix w s) spaces of [] \<Rightarrow> 0 | w # _ \<Rightarrow> length w)"

fun lstrip_from :: "string list \<Rightarrow> nat \<Rightarrow> string \<Rightarrow> string" where
  "lstrip_from spaces k [] = []"
| "lstrip_from spaces k (c # cs) =
     (if k > 0 then lstrip_from spaces (k - 1) cs
      else if space_width spaces (c # cs) > 0
      then lstrip_from spaces (space_width spaces (c # cs) - 1) cs
      else c # cs)"

text \<open>
  \<^verbatim>\<open>strip()\<close>: white space is removed at the beginning, and at the end by the same
  function on the reversed text with the reversed encodings.
\<close>

definition strip :: "string \<Rightarrow> string" where
  "strip s =
     rev (lstrip_from (map rev unicode_spaces) 0 (rev (lstrip_from unicode_spaces 0 s)))"

fun split_on :: "char \<Rightarrow> string \<Rightarrow> string list" where
  "split_on sep [] = [[]]"
| "split_on sep (c # cs) =
     (if c = sep then [] # split_on sep cs
      else (case split_on sep cs of
              [] \<Rightarrow> [[c]]
            | w # ws \<Rightarrow> (c # w) # ws))"

text \<open>
  \<^verbatim>\<open>split()\<close>: the maximal runs without white space; \<open>w\<close> is the run being read and
  \<open>k\<close> the number of bytes of a white space still to skip.
\<close>

fun split_ws_from :: "nat \<Rightarrow> string \<Rightarrow> string \<Rightarrow> string list" where
  "split_ws_from k w [] = (if w = [] then [] else [w])"
| "split_ws_from k w (c # cs) =
     (if k > 0 then split_ws_from (k - 1) w cs
      else if space_width unicode_spaces (c # cs) > 0
      then (if w = [] then split_ws_from (space_width unicode_spaces (c # cs) - 1) [] cs
            else w # split_ws_from (space_width unicode_spaces (c # cs) - 1) [] cs)
      else split_ws_from 0 (w @ [c]) cs)"

definition split_ws :: "string \<Rightarrow> string list" where
  "split_ws s = split_ws_from 0 [] s"

section \<open>The age calculator\<close>

text \<open>
  \<^verbatim>\<open>_calculate_age\<close> (lines 447 to 461). The library part is the parameter
  \<open>elapsed\<close>: for the text \<open>t\<close>, \<open>elapsed t\<close> is the value of
  \<^verbatim>\<open>datetime.now(created.tzinfo) - created\<close> in whole microseconds, where
  \<^verbatim>\<open>created = datetime.fromisoformat(t)\<close>, and \<open>None\<close> when \<^verbatim>\<open>fromisoformat\<close> raises.
  A \<^verbatim>\<open>timedelta\<close> keeps \<^verbatim>\<open>days\<close> (any sign) and \<^verbatim>\<open>seconds\<close> (from 0 to 86399).
  Every exception inside is caught: a timestamp that is not a string has no
  \<^verbatim>\<open>replace\<close> and gives "Unknown".
\<close>

definition replace_Z :: "string \<Rightarrow> string" where
  "replace_Z s = concat (map (\<lambda>c. if c = CHR ''Z'' then ''+00:00'' else [c]) s)"

definition calculate_age :: "(string \<Rightarrow> int option) \<Rightarrow> json \<Rightarrow> string" where
  "calculate_age elapsed timestamp =
     (case timestamp of
        JStr s \<Rightarrow>
          (case elapsed (replace_Z s) of
             None \<Rightarrow> ''Unknown''
           | Some us \<Rightarrow>
               (let days = us div 86400000000;
                    seconds = (us div 1000000) mod 86400
                in if days > 0 then str_int days @ ''d''
                   else if seconds > 3600 then str_int (seconds div 3600) @ ''h''
                   else str_int (seconds div 60) @ ''m''))
      | _ \<Rightarrow> ''Unknown'')"

section \<open>The metrics joiner\<close>

text \<open>
  \<^verbatim>\<open>metrics_map\<close>: the dict from an identity to \<^verbatim>\<open>{'cpu': .., 'memory': ..}\<close>, here a
  map to the pair (cpu, memory). A later line with the same key replaces an earlier one.
\<close>

type_synonym metrics_map = "string \<rightharpoonup> (string \<times> string)"

text \<open>The body of the loop of lines 153 to 160, for one line.\<close>

definition add_node_line :: "metrics_map \<Rightarrow> string \<Rightarrow> metrics_map" where
  "add_node_line m line =
     (if line \<noteq> []
      then (let parts = split_ws line
            in if length parts \<ge> 3 then m(parts ! 0 \<mapsto> (parts ! 1, parts ! 2)) else m)
      else m)"

text \<open>The body of the loop of lines 226 to 233, for one line; \<open>scope\<close> is the argument
  \<^verbatim>\<open>namespace\<close> of \<^verbatim>\<open>get_pods_metrics\<close>.\<close>

definition add_pod_line :: "string \<Rightarrow> metrics_map \<Rightarrow> string \<Rightarrow> metrics_map" where
  "add_pod_line scope m line =
     (if line \<noteq> []
      then (let parts = split_ws line
            in if scope = ''all'' \<and> length parts \<ge> 4
               then m(parts ! 0 @ '':'' @ parts ! 1 \<mapsto> (parts ! 2, parts ! 3))
               else if scope \<noteq> ''all'' \<and> length parts \<ge> 3
               then m(parts ! 0 \<mapsto> (parts ! 1, parts ! 2))
               else m)
      else m)"

text \<open>
  The result of one \<^verbatim>\<open>execute_kubectl\<close> call: (stdout, stderr, return code).
\<close>

type_synonym kubectl_result = "string \<times> string \<times> int"

definition node_metrics_map :: "kubectl_result \<Rightarrow> metrics_map" where
  "node_metrics_map metrics =
     (case metrics of (metrics_stdout, _, metrics_code) \<Rightarrow>
        if metrics_code = 0
        then foldl add_node_line Map.empty (split_on CHR 0x0A (strip metrics_stdout))
        else Map.empty)"

definition pod_metrics_map :: "string \<Rightarrow> kubectl_result \<Rightarrow> metrics_map" where
  "pod_metrics_map scope metrics =
     (case metrics of (metrics_stdout, _, metrics_code) \<Rightarrow>
        if metrics_code = 0
        then foldl (add_pod_line scope) Map.empty (split_on CHR 0x0A (strip metrics_stdout))
        else Map.empty)"

text \<open>
  \<^verbatim>\<open>metrics_map.get(key, {}).get('cpu', 'N/A')\<close> and the same for the memory: the pair
  of both. A list or a dict as the key is unhashable and raises TypeError; a key that is
  no string is never in the map.
\<close>

definition usage_of :: "metrics_map \<Rightarrow> json \<Rightarrow> py_error + (string \<times> string)" where
  "usage_of m key =
     (case key of
        JList _ \<Rightarrow> Inl TypeError
      | JObj _ \<Rightarrow> Inl TypeError
      | JStr s \<Rightarrow> Inr (case m s of None \<Rightarrow> (''N/A'', ''N/A'') | Some u \<Rightarrow> u)
      | _ \<Rightarrow> Inr (''N/A'', ''N/A''))"

section \<open>The node and pod normalizer\<close>

text \<open>
  The generator of lines 164 to 167 under \<^verbatim>\<open>any\<close>: it stops at the first condition
  that is Ready and True, and \<^verbatim>\<open>and\<close> reads the status only when the type is Ready.
\<close>

fun any_ready :: "json list \<Rightarrow> py_error + bool" where
  "any_ready [] = Inr False"
| "any_ready (condition # rest) =
     (case subscript condition ''type'' of
        Inl e \<Rightarrow> Inl e
      | Inr t \<Rightarrow>
          if t = JStr ''Ready''
          then (case subscript condition ''status'' of
                  Inl e \<Rightarrow> Inl e
                | Inr s \<Rightarrow> if s = JStr ''True'' then Inr True else any_ready rest)
          else any_ready rest)"

text \<open>A leaf the dataclass annotates as \<^verbatim>\<open>str\<close> or \<^verbatim>\<open>Optional[str]\<close>.\<close>

definition as_str :: "json \<Rightarrow> py_error + string" where
  "as_str v = (case v of JStr s \<Rightarrow> Inr s | _ \<Rightarrow> Inl OutsideModel)"

definition as_opt_str :: "json \<Rightarrow> py_error + string option" where
  "as_opt_str v = (case v of JStr s \<Rightarrow> Inr (Some s) | JNull \<Rightarrow> Inr None | _ \<Rightarrow> Inl OutsideModel)"

text \<open>
  The body of the loop of lines 162 to 189 for one item of the listing, in the order of
  evaluation of the source. First the reads of the payload (lines 163 to 174): the name,
  whether a condition is Ready and True, the creation timestamp, the kubelet version and
  the two labels.
\<close>

definition node_fields :: "json \<Rightarrow> py_error + (json \<times> bool \<times> json \<times> json \<times> json \<times> json)" where
  "node_fields item =
     and_then (subscript item ''metadata'') (\<lambda>metadata.
     and_then (subscript metadata ''name'') (\<lambda>name.
     and_then (subscript item ''status'') (\<lambda>node_status.
     and_then (subscript node_status ''conditions'') (\<lambda>conditions.
     and_then (py_iter conditions) (\<lambda>conditions.
     and_then (any_ready conditions) (\<lambda>ready.
     and_then (subscript metadata ''creationTimestamp'') (\<lambda>created.
     and_then (subscript node_status ''nodeInfo'') (\<lambda>node_info.
     and_then (subscript node_info ''kubeletVersion'') (\<lambda>version.
     and_then (py_get metadata ''labels'' (JObj [])) (\<lambda>labels.
     and_then (py_get labels ''node.kubernetes.io/instance-type'' JNull) (\<lambda>instance_type.
     and_then (py_get metadata ''labels'' (JObj [])) (\<lambda>labels.
     and_then (py_get labels ''topology.kubernetes.io/zone'' JNull) (\<lambda>zone.
       Inr (name, ready, created, version, instance_type, zone))))))))))))))"

text \<open>
  Then the join with the usage snapshot (lines 176 and 177) and the construction of the
  record (lines 179 to 189).
\<close>

definition node_record ::
  "(string \<Rightarrow> int option) \<Rightarrow> metrics_map \<Rightarrow> json \<Rightarrow> py_error + NodeMetrics" where
  "node_record elapsed metrics_map item =
     and_then (node_fields item) (\<lambda>(name, ready, created, version, instance_type, zone).
     and_then (usage_of metrics_map name) (\<lambda>usage.
     and_then (as_str name) (\<lambda>name.
     and_then (as_str version) (\<lambda>version.
     and_then (as_opt_str instance_type) (\<lambda>instance_type.
     and_then (as_opt_str zone) (\<lambda>zone.
       Inr \<lparr>NodeMetrics.name = name,
            cpu_usage = fst usage,
            memory_usage = snd usage,
            disk_usage = ''N/A'',
            status = (if ready then ''Ready'' else ''NotReady''),
            age = calculate_age elapsed created,
            version = version,
            instance_type = instance_type,
            zone = zone\<rparr>))))))"

text \<open>A \<^verbatim>\<open>for\<close> loop that appends one record per item and ends at the first exception.\<close>

fun for_each :: "('a \<Rightarrow> 'e + 'b) \<Rightarrow> 'a list \<Rightarrow> 'e + 'b list" where
  "for_each f [] = Inr []"
| "for_each f (x # xs) =
     (case f x of
        Inl e \<Rightarrow> Inl e
      | Inr y \<Rightarrow> (case for_each f xs of Inl e \<Rightarrow> Inl e | Inr ys \<Rightarrow> Inr (y # ys)))"

text \<open>
  \<^verbatim>\<open>get_nodes_metrics\<close> (lines 130 to 194). \<open>json_loads\<close> is \<^verbatim>\<open>json.loads\<close>, which
  returns a value or raises; JSONDecodeError is the one exception the function catches
  (line 191), any other leaves it. \<open>listing\<close>
  and \<open>metrics\<close> are the results of the two \<^verbatim>\<open>kubectl\<close> calls.
\<close>

definition get_nodes_metrics ::
  "(string \<Rightarrow> py_error + json) \<Rightarrow> (string \<Rightarrow> int option) \<Rightarrow> kubectl_result \<Rightarrow> kubectl_result
     \<Rightarrow> py_error + NodeMetrics list" where
  "get_nodes_metrics json_loads elapsed listing metrics =
     (case listing of (stdout, stderr, code) \<Rightarrow>
        if code \<noteq> 0 then Inr []
        else (case json_loads stdout of
                Inl e \<Rightarrow> if e = JSONDecodeError then Inr [] else Inl e
              | Inr nodes_data \<Rightarrow>
                  and_then (py_get nodes_data ''items'' (JList [])) (\<lambda>items.
                  and_then (py_iter items) (\<lambda>items.
                    for_each (node_record elapsed (node_metrics_map metrics)) items))))"

text \<open>
  The sum of lines 240 to 243. Python adds the counts one by one: an int or a bool is
  added, a float makes the sum a float (outside the typed record: \<open>None\<close>), and
  anything else cannot be added to a number.
\<close>

fun sum_restarts :: "int option \<Rightarrow> json list \<Rightarrow> py_error + int option" where
  "sum_restarts acc [] = Inr acc"
| "sum_restarts acc (container_status # rest) =
     (case py_get container_status ''restartCount'' (JInt 0) of
        Inl e \<Rightarrow> Inl e
      | Inr (JInt n) \<Rightarrow> sum_restarts (map_option (\<lambda>a. a + n) acc) rest
      | Inr (JBool b) \<Rightarrow> sum_restarts (map_option (\<lambda>a. a + (if b then 1 else 0)) acc) rest
      | Inr (JFloat x) \<Rightarrow> sum_restarts None rest
      | Inr _ \<Rightarrow> Inl TypeError)"

definition as_int :: "int option \<Rightarrow> py_error + int" where
  "as_int v = (case v of Some n \<Rightarrow> Inr n | None \<Rightarrow> Inl OutsideModel)"

text \<open>
  The body of the loop of lines 235 to 266 for one item of the listing. First the reads
  of the payload (lines 236 to 246).
\<close>

definition pod_fields ::
  "json \<Rightarrow> py_error + (json \<times> json \<times> json \<times> int option \<times> json \<times> json)" where
  "pod_fields pod =
     and_then (subscript pod ''metadata'') (\<lambda>metadata.
     and_then (subscript metadata ''name'') (\<lambda>name.
     and_then (subscript metadata ''namespace'') (\<lambda>pod_namespace.
     and_then (subscript pod ''status'') (\<lambda>pod_status.
     and_then (subscript pod_status ''phase'') (\<lambda>phase.
     and_then (py_get pod_status ''containerStatuses'' (JList [])) (\<lambda>statuses.
     and_then (py_iter statuses) (\<lambda>statuses.
     and_then (sum_restarts (Some 0) statuses) (\<lambda>restarts.
     and_then (subscript metadata ''creationTimestamp'') (\<lambda>created.
     and_then (subscript pod ''spec'') (\<lambda>spec.
     and_then (py_get spec ''nodeName'' (JStr ''N/A'')) (\<lambda>node.
       Inr (name, pod_namespace, phase, restarts, created, node))))))))))))"

text \<open>
  Then the key of the pod (lines 249 to 252: the f-string \<^verbatim>\<open>namespace:name\<close> for the
  scope "all", the name otherwise), the join with the usage snapshot (lines 254 and 255)
  and the construction of the record. The f-string of a name or namespace that is no
  string is a text this theory does not model; Python raises nothing there and builds an
  ill-typed record.
\<close>

definition pod_record ::
  "(string \<Rightarrow> int option) \<Rightarrow> string \<Rightarrow> metrics_map \<Rightarrow> json \<Rightarrow> py_error + PodMetrics" where
  "pod_record elapsed scope metrics_map pod =
     and_then (pod_fields pod) (\<lambda>(name, pod_namespace, phase, restarts, created, node).
     and_then (if scope = ''all''
               then (case (pod_namespace, name) of
                       (JStr ns, JStr n) \<Rightarrow> usage_of metrics_map (JStr (ns @ '':'' @ n))
                     | _ \<Rightarrow> Inl OutsideModel)
               else usage_of metrics_map name) (\<lambda>usage.
     and_then (as_str name) (\<lambda>name.
     and_then (as_str pod_namespace) (\<lambda>pod_namespace.
     and_then (as_str phase) (\<lambda>phase.
     and_then (as_int restarts) (\<lambda>restarts.
     and_then (as_str node) (\<lambda>node.
       Inr \<lparr>PodMetrics.name = name,
            namespace = pod_namespace,
            status = phase,
            cpu_usage = fst usage,
            memory_usage = snd usage,
            restarts = restarts,
            age = calculate_age elapsed created,
            node = node\<rparr>)))))))"

text \<open>\<^verbatim>\<open>get_pods_metrics\<close> (lines 196 to 271); \<open>scope\<close> is its argument \<^verbatim>\<open>namespace\<close>
  (a namespace, or "all").\<close>

definition get_pods_metrics ::
  "(string \<Rightarrow> py_error + json) \<Rightarrow> (string \<Rightarrow> int option) \<Rightarrow> string \<Rightarrow> kubectl_result
     \<Rightarrow> kubectl_result \<Rightarrow> py_error + PodMetrics list" where
  "get_pods_metrics json_loads elapsed scope listing metrics =
     (case listing of (stdout, stderr, code) \<Rightarrow>
        if code \<noteq> 0 then Inr []
        else (case json_loads stdout of
                Inl e \<Rightarrow> if e = JSONDecodeError then Inr [] else Inl e
              | Inr pods_data \<Rightarrow>
                  and_then (py_get pods_data ''items'' (JList [])) (\<lambda>items.
                  and_then (py_iter items) (\<lambda>items.
                    for_each (pod_record elapsed scope (pod_metrics_map scope metrics))
                      items))))"

text \<open>
  The whole of \<^verbatim>\<open>analyze_cluster_health\<close>: the two fetches of lines 275 and 276 (the
  pods of all namespaces), whose exceptions it does not catch, and the classification.
\<close>

definition fetch_and_analyze ::
  "(string \<Rightarrow> py_error + json) \<Rightarrow> (string \<Rightarrow> int option) \<Rightarrow> kubectl_result \<Rightarrow> kubectl_result
     \<Rightarrow> kubectl_result \<Rightarrow> kubectl_result \<Rightarrow> py_error + ClusterHealth" where
  "fetch_and_analyze json_loads elapsed node_listing node_top pod_listing pod_top =
     and_then (get_nodes_metrics json_loads elapsed node_listing node_top) (\<lambda>nodes.
     and_then (get_pods_metrics json_loads elapsed ''all'' pod_listing pod_top) (\<lambda>pods.
       Inr (analyze_cluster_health nodes pods)))"

section \<open>Vocabulary of the statements about the usage snapshot\<close>

text \<open>
  The items a listing holds: what the loop of \<open>get_nodes_metrics\<close> or
  \<open>get_pods_metrics\<close> iterates over (none when the listing failed or did not decode).
\<close>

definition listed_items :: "(string \<Rightarrow> py_error + json) \<Rightarrow> kubectl_result \<Rightarrow> json list" where
  "listed_items json_loads listing =
     (case listing of (stdout, stderr, code) \<Rightarrow>
        if code \<noteq> 0 then []
        else (case json_loads stdout of
                Inl e \<Rightarrow> []
              | Inr data \<Rightarrow>
                  (case and_then (py_get data ''items'' (JList [])) py_iter of
                     Inl e \<Rightarrow> []
                   | Inr items \<Rightarrow> items)))"

text \<open>
  A usage snapshot that failed (non-zero return code) or has no parseable line: every
  line has fewer fields than the parser asks for (three, or four for the scope "all").
\<close>

definition node_snapshot_unusable :: "kubectl_result \<Rightarrow> bool" where
  "node_snapshot_unusable metrics =
     (snd (snd metrics) \<noteq> 0 \<or>
      list_all (\<lambda>line. length (split_ws line) < 3) (split_on CHR 0x0A (strip (fst metrics))))"

definition pod_snapshot_unusable :: "string \<Rightarrow> kubectl_result \<Rightarrow> bool" where
  "pod_snapshot_unusable scope metrics =
     (snd (snd metrics) \<noteq> 0 \<or>
      list_all (\<lambda>line. length (split_ws line) < (if scope = ''all'' then 4 else 3))
        (split_on CHR 0x0A (strip (fst metrics))))"

text \<open>The identity under which a pod record is looked up in the snapshot.\<close>

definition pod_key :: "string \<Rightarrow> PodMetrics \<Rightarrow> string" where
  "pod_key scope r =
     (if scope = ''all'' then PodMetrics.namespace r @ '':'' @ PodMetrics.name r
      else PodMetrics.name r)"

text \<open>
  A record joined with a usage map: its two usage fields are the entry of the map under
  the record's identity, and "N/A" where the map has none.
\<close>

definition node_with_usage :: "metrics_map \<Rightarrow> NodeMetrics \<Rightarrow> NodeMetrics" where
  "node_with_usage m r =
     (case m (NodeMetrics.name r) of
        None \<Rightarrow> r\<lparr>NodeMetrics.cpu_usage := ''N/A'', NodeMetrics.memory_usage := ''N/A''\<rparr>
      | Some u \<Rightarrow> r\<lparr>NodeMetrics.cpu_usage := fst u, NodeMetrics.memory_usage := snd u\<rparr>)"

definition pod_with_usage :: "string \<Rightarrow> metrics_map \<Rightarrow> PodMetrics \<Rightarrow> PodMetrics" where
  "pod_with_usage scope m r =
     (case m (pod_key scope r) of
        None \<Rightarrow> r\<lparr>PodMetrics.cpu_usage := ''N/A'', PodMetrics.memory_usage := ''N/A''\<rparr>
      | Some u \<Rightarrow> r\<lparr>PodMetrics.cpu_usage := fst u, PodMetrics.memory_usage := snd u\<rparr>)"

section \<open>Concrete payloads\<close>

text \<open>
  Payloads as \<^verbatim>\<open>kubectl get ... -o json\<close> prints them, cut down to the fields the
  server reads: a ready node, a node item without \<^verbatim>\<open>metadata.name\<close>, a running pod
  with two containers, the autoscaler's deployment, a node pool without metadata, and two
  applications of which the second has no \<^verbatim>\<open>spec.source.repoURL\<close>. \<open>example_loads\<close>
  decodes six texts to payloads of them, raises RecursionError on a seventh and
  JSONDecodeError on every other; \<open>example_elapsed\<close> reports 25 hours for every
  timestamp.
\<close>

definition example_node :: "string \<Rightarrow> json" where
  "example_node n =
     JObj [(''metadata'', JObj [(''name'', JStr n),
                               (''creationTimestamp'', JStr ''2024-01-01T00:00:00Z'')]),
           (''status'', JObj [(''conditions'',
                                 JList [JObj [(''type'', JStr ''Ready''),
                                              (''status'', JStr ''True'')]]),
                              (''nodeInfo'', JObj [(''kubeletVersion'', JStr ''v1.29.0'')])])]"

definition example_nameless_node :: json where
  "example_nameless_node =
     JObj [(''metadata'', JObj [(''creationTimestamp'', JStr ''2024-01-01T00:00:00Z'')]),
           (''status'', JObj [(''conditions'',
                                 JList [JObj [(''type'', JStr ''Ready''),
                                              (''status'', JStr ''True'')]]),
                              (''nodeInfo'', JObj [(''kubeletVersion'', JStr ''v1.29.0'')])])]"

definition example_pod :: "string \<Rightarrow> json" where
  "example_pod n =
     JObj [(''metadata'', JObj [(''name'', JStr n), (''namespace'', JStr ''default''),
                               (''creationTimestamp'', JStr ''2024-01-01T00:00:00Z'')]),
           (''spec'', JObj [(''nodeName'', JStr ''n1'')]),
           (''status'', JObj [(''phase'', JStr ''Running''),
                              (''containerStatuses'',
                                 JList [JObj [(''restartCount'', JInt 2)],
                                        JObj [(''restartCount'', JInt 4)]])])]"

definition example_deployment :: json where
  "example_deployment =
     JObj [(''spec'', JObj [(''template'', JObj [(''spec'', JObj [(''containers'',
        JList [JObj [(''name'', JStr ''controller''),
                     (''image'', JStr ''public.ecr.aws/karpenter/controller:v0.32.1'')]])])])])]"

definition example_application :: "string \<Rightarrow> json" where
  "example_application n =
     JObj [(''metadata'', JObj [(''name'', JStr n)]),
           (''spec'', JObj [(''source'', JObj [(''repoURL'', JStr ''https://git.example/repo'')])]),
           (''status'', JObj [(''health'', JObj [(''status'', JStr ''Healthy'')]),
                              (''sync'', JObj [(''status'', JStr ''OutOfSync'')])])]"

definition example_loads :: "string \<Rightarrow> py_error + json" where
  "example_loads s =
     (if s = ''nodes''
      then Inr (JObj [(''items'', JList [example_node ''n1'', example_node ''n2''])])
      else if s = ''nameless'' then Inr (JObj [(''items'', JList [example_nameless_node])])
      else if s = ''pods'' then Inr (JObj [(''items'', JList [example_pod ''web''])])
      else if s = ''deployment'' then Inr example_deployment
      else if s = ''nodepools''
      then Inr (JObj [(''items'', JList [JObj [(''spec'', JObj [])]])])
      else if s = ''applications''
      then Inr (JObj [(''items'', JList [example_application ''shop'',
             JObj [(''metadata'', JObj [(''name'', JStr ''blog'')]),
                   (''spec'', JObj [(''source'', JObj [])]),
                   (''status'', JObj [])]])])
      else if s = ''deep'' then Inl RecursionError
      else Inl JSONDecodeError)"

text \<open>
  A stand-in for \<^verbatim>\<open>str(e)\<close>: the text of a KeyError is its key in quotes; the other
  texts differ between interpreter versions.
\<close>

definition example_exc_str :: "py_error \<Rightarrow> string" where
  "example_exc_str e =
     (case e of
        KeyError k \<Rightarrow> [CHR 0x27] @ k @ [CHR 0x27]
      | TypeError \<Rightarrow> ''TypeError''
      | AttributeError \<Rightarrow> ''AttributeError''
      | JSONDecodeError \<Rightarrow> ''JSONDecodeError''
      | RecursionError \<Rightarrow> ''RecursionError''
      | OutsideModel \<Rightarrow> [])"

definition example_elapsed :: "string \<Rightarrow> int option" where
  "example_elapsed t = Some 90000000000"

section \<open>The addon inspectors\<close>

text \<open>
  The dict that \<^verbatim>\<open>analyze_karpenter\<close> builds and returns (lines 345 to 352), key by
  key, and the summary of one node pool (lines 379 to 383). The values read from a
  payload are kept as they are.
\<close>

record node_pool =
  name :: json
  instance_types :: json
  limits :: json

record karpenter_analysis =
  installed :: bool
  version :: "string option"
  node_pools :: "node_pool list"
  provisioned_nodes :: int
  issues :: "string list"
  recommendations :: "string list"

definition karpenter_initial :: karpenter_analysis where
  "karpenter_initial =
     \<lparr>karpenter_analysis.installed = False,
      version = None,
      node_pools = [],
      provisioned_nodes = 0,
      issues = [],
      recommendations = []\<rparr>"

text \<open>
  The loop of lines 366 to 369: the first container whose image holds "karpenter" gives
  the version, the text after the last colon of its image.
\<close>

fun find_version :: "json list \<Rightarrow> py_error + string option" where
  "find_version [] = Inr None"
| "find_version (container # rest) =
     (case subscript container ''image'' of
        Inl e \<Rightarrow> Inl e
      | Inr container_image \<Rightarrow>
          (case py_in ''karpenter'' container_image of
             Inl e \<Rightarrow> Inl e
           | Inr found \<Rightarrow>
               if found
               then (case split_colon_last container_image of
                       Inl e \<Rightarrow> Inl e
                     | Inr v \<Rightarrow> Inr (Some v))
               else find_version rest))"

text \<open>Lines 362 to 369: decode the deployment and look for the version.\<close>

definition deployment_version :: "(string \<Rightarrow> py_error + json) \<Rightarrow> string \<Rightarrow> py_error + string option" where
  "deployment_version json_loads stdout =
     (case json_loads stdout of
        Inl e \<Rightarrow> Inl e
      | Inr deployment_data \<Rightarrow>
          and_then (subscript deployment_data ''spec'') (\<lambda>spec.
          and_then (subscript spec ''template'') (\<lambda>template.
          and_then (subscript template ''spec'') (\<lambda>pod_spec.
          and_then (subscript pod_spec ''containers'') (\<lambda>containers.
          and_then (py_iter containers) find_version)))))"

text \<open>Lines 379 to 383: the summary of one node pool.\<close>

definition node_pool_summary :: "json \<Rightarrow> py_error + node_pool" where
  "node_pool_summary np =
     and_then (subscript np ''metadata'') (\<lambda>metadata.
     and_then (subscript metadata ''name'') (\<lambda>name.
     and_then (subscript np ''spec'') (\<lambda>spec.
     and_then (py_get spec ''requirements'' (JList [])) (\<lambda>requirements.
     and_then (subscript np ''spec'') (\<lambda>spec.
     and_then (py_get spec ''limits'' (JObj [])) (\<lambda>limits.
       Inr \<lparr>node_pool.name = name, instance_types = requirements, limits = limits\<rparr>))))))"

text \<open>Lines 377 to 385: decode the node pools and summarise each.\<close>

definition list_node_pools :: "(string \<Rightarrow> py_error + json) \<Rightarrow> string \<Rightarrow> py_error + node_pool list" where
  "list_node_pools json_loads stdout =
     (case json_loads stdout of
        Inl e \<Rightarrow> Inl e
      | Inr nodepools_data \<Rightarrow>
          and_then (py_get nodepools_data ''items'' (JList [])) (\<lambda>items.
          and_then (py_iter items) (for_each node_pool_summary)))"

text \<open>Lines 393 and 394: decode the node listing and count its items.\<close>

definition count_provisioned :: "(string \<Rightarrow> py_error + json) \<Rightarrow> string \<Rightarrow> py_error + int" where
  "count_provisioned json_loads stdout =
     (case json_loads stdout of
        Inl e \<Rightarrow> Inl e
      | Inr nodes_data \<Rightarrow>
          and_then (py_get nodes_data ''items'' (JList [])) py_len)"

text \<open>
  The handler of lines 396 and 397: the message of the exception is appended to the
  issues. \<open>exc_str\<close> is \<^verbatim>\<open>str(e)\<close>, the interpreter's text for an exception.
\<close>

definition karpenter_failed ::
  "(py_error \<Rightarrow> string) \<Rightarrow> karpenter_analysis \<Rightarrow> py_error \<Rightarrow> karpenter_analysis" where
  "karpenter_failed exc_str a e =
     a\<lparr>karpenter_analysis.issues :=
         karpenter_analysis.issues a @ [''Error analyzing Karpenter: '' @ exc_str e]\<rparr>"

text \<open>
  \<^verbatim>\<open>analyze_karpenter\<close> (lines 343 to 399). The three arguments after the library
  functions are the results of the three \<^verbatim>\<open>kubectl\<close> calls: the deployment, the node
  pools and the labelled nodes. Each assignment to the dict is the last action of its
  step, so an exception leaves the dict as it was before the step.
\<close>

definition analyze_karpenter ::
  "(string \<Rightarrow> py_error + json) \<Rightarrow> (py_error \<Rightarrow> string) \<Rightarrow> kubectl_result \<Rightarrow> kubectl_result
     \<Rightarrow> kubectl_result \<Rightarrow> karpenter_analysis" where
  "analyze_karpenter json_loads exc_str deployment nodepools labelled =
     (if snd (snd deployment) \<noteq> 0 then karpenter_initial
      else
        (let a1 = karpenter_initial\<lparr>karpenter_analysis.installed := True\<rparr>
         in case deployment_version json_loads (fst deployment) of
              Inl e \<Rightarrow> karpenter_failed exc_str a1 e
            | Inr v \<Rightarrow>
                (let a2 = (case v of None \<Rightarrow> a1
                           | Some image_tag \<Rightarrow> a1\<lparr>karpenter_analysis.version := Some image_tag\<rparr>)
                 in case (if snd (snd nodepools) = 0
                          then and_then (list_node_pools json_loads (fst nodepools))
                                 (\<lambda>pools. Inr (a2\<lparr>karpenter_analysis.node_pools := pools\<rparr>))
                          else Inr a2) of
                      Inl e \<Rightarrow> karpenter_failed exc_str a2 e
                    | Inr a3 \<Rightarrow>
                        (case (if snd (snd labelled) = 0
                               then and_then (count_provisioned json_loads (fst labelled))
                                      (\<lambda>n. Inr (a3\<lparr>karpenter_analysis.provisioned_nodes := n\<rparr>))
                               else Inr a3) of
                           Inl e \<Rightarrow> karpenter_failed exc_str a3 e
                         | Inr a4 \<Rightarrow> a4))))"

text \<open>
  The dict that \<^verbatim>\<open>get_argocd_status\<close> builds and returns (lines 403 to 408) and the
  summary of one application (lines 424 to 429), whose keys "name", "health", "sync" and
  "repo" are the fields \<open>app_name\<close>, \<open>app_health\<close>, \<open>app_sync\<close> and \<open>app_repo\<close>.
\<close>

record app_info =
  app_name :: json
  app_health :: json
  app_sync :: json
  app_repo :: json

record argocd_status =
  installed :: bool
  applications :: "app_info list"
  health_status :: string
  sync_status :: string

definition argocd_initial :: argocd_status where
  "argocd_initial =
     \<lparr>argocd_status.installed = False,
      applications = [],
      health_status = ''Unknown'',
      sync_status = ''Unknown''\<rparr>"

text \<open>Lines 424 to 429: the dict literal, its values in the order of the keys.\<close>

definition application_info :: "json \<Rightarrow> py_error + app_info" where
  "application_info app =
     and_then (subscript app ''metadata'') (\<lambda>metadata.
     and_then (subscript metadata ''name'') (\<lambda>name.
     and_then (subscript app ''status'') (\<lambda>app_status.
     and_then (py_get app_status ''health'' (JObj [])) (\<lambda>health.
     and_then (py_get health ''status'' (JStr ''Unknown'')) (\<lambda>health.
     and_then (subscript app ''status'') (\<lambda>app_status.
     and_then (py_get app_status ''sync'' (JObj [])) (\<lambda>sync.
     and_then (py_get sync ''status'' (JStr ''Unknown'')) (\<lambda>sync.
     and_then (subscript app ''spec'') (\<lambda>spec.
     and_then (subscript spec ''source'') (\<lambda>source.
     and_then (subscript source ''repoURL'') (\<lambda>repo.
       Inr \<lparr>app_name = name, app_health = health, app_sync = sync, app_repo = repo\<rparr>)))))))))))"

text \<open>
  The loop of lines 423 to 435 over the applications, with the list of summaries and the
  two counters as its state. An exception ends the loop and is returned with the state
  reached: the summaries appended so far stay in the dict.
\<close>

fun scan_applications ::
  "json list \<Rightarrow> app_info list \<times> int \<times> int \<Rightarrow> (app_info list \<times> int \<times> int) \<times> py_error option" where
  "scan_applications [] state = (state, None)"
| "scan_applications (app # rest) (apps, healthy_apps, synced_apps) =
     (case application_info app of
        Inl e \<Rightarrow> ((apps, healthy_apps, synced_apps), Some e)
      | Inr info \<Rightarrow>
          scan_applications rest
            (apps @ [info],
             (if app_health info = JStr ''Healthy'' then healthy_apps + 1 else healthy_apps),
             (if app_sync info = JStr ''Synced'' then synced_apps + 1 else synced_apps)))"

text \<open>
  \<^verbatim>\<open>get_argocd_status\<close> (lines 401 to 445). Every exception is caught and logged; the
  dict is returned as the exception left it.
\<close>

definition get_argocd_status :: "(string \<Rightarrow> py_error + json) \<Rightarrow> kubectl_result \<Rightarrow> argocd_status" where
  "get_argocd_status json_loads listing =
     (if snd (snd listing) \<noteq> 0 then argocd_initial
      else
        (let s1 = argocd_initial\<lparr>argocd_status.installed := True\<rparr>
         in case json_loads (fst listing) of
              Inl e \<Rightarrow> s1
            | Inr apps_data \<Rightarrow>
                (case and_then (py_get apps_data ''items'' (JList [])) py_iter of
                   Inl e \<Rightarrow> s1
                 | Inr items \<Rightarrow>
                     (case scan_applications items ([], 0, 0) of
                        ((apps, healthy_apps, synced_apps), Some e) \<Rightarrow>
                          s1\<lparr>argocd_status.applications := apps\<rparr>
                      | ((apps, healthy_apps, synced_apps), None) \<Rightarrow>
                          (let s2 = s1\<lparr>argocd_status.applications := apps\<rparr>
                           in case and_then (py_get apps_data ''items'' (JList [])) py_len of
                                Inl e \<Rightarrow> s2
                              | Inr total_apps \<Rightarrow>
                                  if total_apps > 0
                                  then s2\<lparr>argocd_status.health_status :=
                                            str_int healthy_apps @ ''/'' @ str_int total_apps
                                              @ '' Healthy'',
                                          argocd_status.sync_status :=
                                            str_int synced_apps @ ''/'' @ str_int total_apps
                                              @ '' Synced''\<rparr>
                                  else s2)))))"

section \<open>The report renderer\<close>

text \<open>
  \<^verbatim>\<open>ClusterProvider\<close> with the value of each member, and \<^verbatim>\<open>str.upper\<close> on ASCII text.
\<close>

datatype ClusterProvider = EKS | GKE | AKS | GENERIC

definition provider_value :: "ClusterProvider \<Rightarrow> string" where
  "provider_value p =
     (case p of EKS \<Rightarrow> ''eks'' | GKE \<Rightarrow> ''gke'' | AKS \<Rightarrow> ''aks'' | GENERIC \<Rightarrow> ''generic'')"

definition upper :: "string \<Rightarrow> string" where
  "upper s =
     map (\<lambda>c. if (97::nat) \<le> of_char c \<and> of_char c \<le> (122::nat)
               then char_of (of_char c - (32::nat)) else c) s"

text \<open>
  A reading of the wall clock, \<^verbatim>\<open>datetime.now()\<close>: a naive datetime with its seven
  fields. \<open>strftime_seconds\<close> is \<^verbatim>\<open>strftime('%Y-%m-%d %H:%M:%S')\<close> and \<open>isoformat\<close>
  is \<^verbatim>\<open>isoformat()\<close>, which leaves the microseconds out when they are zero; both for
  years of four digits.
\<close>

record datetime =
  year :: nat
  month :: nat
  day :: nat
  hour :: nat
  minute :: nat
  second :: nat
  microsecond :: nat

definition zfill :: "nat \<Rightarrow> string \<Rightarrow> string" where
  "zfill w s = replicate (w - length s) CHR ''0'' @ s"

definition strftime_seconds :: "datetime \<Rightarrow> string" where
  "strftime_seconds t =
     zfill 4 (str_nat (year t)) @ ''-'' @ zfill 2 (str_nat (month t)) @ ''-''
       @ zfill 2 (str_nat (day t)) @ '' '' @ zfill 2 (str_nat (hour t)) @ '':''
       @ zfill 2 (str_nat (minute t)) @ '':'' @ zfill 2 (str_nat (second t))"

definition isoformat :: "datetime \<Rightarrow> string" where
  "isoformat t =
     zfill 4 (str_nat (year t)) @ ''-'' @ zfill 2 (str_nat (month t)) @ ''-''
       @ zfill 2 (str_nat (day t)) @ ''T'' @ zfill 2 (str_nat (hour t)) @ '':''
       @ zfill 2 (str_nat (minute t)) @ '':'' @ zfill 2 (str_nat (second t))
       @ (if microsecond t \<noteq> 0 then ''.'' @ zfill 6 (str_nat (microsecond t)) else [])"

text \<open>
  \<^verbatim>\<open>str(v)\<close> as an f-string applies it to a value of a payload: a string is itself,
  \<^verbatim>\<open>None\<close>, a bool and an int have fixed texts, and for a float, a list or a dict the
  text is the interpreter's \<^verbatim>\<open>repr\<close>, the parameter \<open>py_repr\<close>.
\<close>

definition py_str :: "(json \<Rightarrow> string) \<Rightarrow> json \<Rightarrow> string" where
  "py_str py_repr v =
     (case v of
        JStr s \<Rightarrow> s
      | JNull \<Rightarrow> ''None''
      | JBool b \<Rightarrow> (if b then ''True'' else ''False'')
      | JInt i \<Rightarrow> str_int i
      | _ \<Rightarrow> py_repr v)"

text \<open>The symbols of the report, as their UTF-8 bytes.\<close>

definition emoji_direct_hit :: string where
  "emoji_direct_hit = [CHR 0xF0, CHR 0x9F, CHR 0x8E, CHR 0xAF]"

definition emoji_bar_chart :: string where
  "emoji_bar_chart = [CHR 0xF0, CHR 0x9F, CHR 0x93, CHR 0x8A]"

definition emoji_red_circle :: string where
  "emoji_red_circle = [CHR 0xF0, CHR 0x9F, CHR 0x94, CHR 0xB4]"

definition emoji_cross_mark :: string where
  "emoji_cross_mark = [CHR 0xE2, CHR 0x9D, CHR 0x8C]"

definition emoji_check_mark :: string where
  "emoji_check_mark = [CHR 0xE2, CHR 0x9C, CHR 0x85]"

definition emoji_warning :: string where
  "emoji_warning = [CHR 0xE2, CHR 0x9A, CHR 0xA0, CHR 0xEF, CHR 0xB8, CHR 0x8F]"

definition emoji_desktop :: string where
  "emoji_desktop = [CHR 0xF0, CHR 0x9F, CHR 0x96, CHR 0xA5, CHR 0xEF, CHR 0xB8, CHR 0x8F]"

definition emoji_rotating_light :: string where
  "emoji_rotating_light = [CHR 0xF0, CHR 0x9F, CHR 0x9A, CHR 0xA8]"

definition emoji_rocket :: string where
  "emoji_rocket = [CHR 0xF0, CHR 0x9F, CHR 0x9A, CHR 0x80]"

definition emoji_arrows :: string where
  "emoji_arrows = [CHR 0xF0, CHR 0x9F, CHR 0x94, CHR 0x84]"

definition emoji_bulb :: string where
  "emoji_bulb = [CHR 0xF0, CHR 0x9F, CHR 0x92, CHR 0xA1]"

definition emoji_wrench :: string where
  "emoji_wrench = [CHR 0xF0, CHR 0x9F, CHR 0x94, CHR 0xA7]"

text \<open>
  The rows of the two tables (lines 744 and 757) and the line of one application
  (line 783). \<^verbatim>\<open>node.instance_type or 'N/A'\<close> is "N/A" for \<^verbatim>\<open>None\<close> and for the empty
  string.
\<close>

definition node_row :: "NodeMetrics \<Rightarrow> string" where
  "node_row n =
     ''| '' @ NodeMetrics.name n @ '' | '' @ NodeMetrics.status n @ '' | '' @ NodeMetrics.cpu_usage n @ '' | '' @ NodeMetrics.memory_usage n
       @ '' | '' @ NodeMetrics.age n @ '' | '' @ NodeMetrics.version n @ '' | ''
       @ (case NodeMetrics.instance_type n of
            None \<Rightarrow> ''N/A''
          | Some t \<Rightarrow> if t = [] then ''N/A'' else t)
       @ '' |\<newline>''"

definition pod_row :: "PodMetrics \<Rightarrow> string" where
  "pod_row p =
     ''| '' @ PodMetrics.name p @ '' | '' @ PodMetrics.namespace p @ '' | '' @ PodMetrics.status p
       @ '' | '' @ str_int (PodMetrics.restarts p) @ '' | '' @ PodMetrics.node p @ '' |\<newline>''"

definition application_line :: "(json \<Rightarrow> string) \<Rightarrow> app_info \<Rightarrow> string" where
  "application_line py_repr a =
     ''- '' @ py_str py_repr (app_name a) @ '': '' @ py_str py_repr (app_health a) @ ''/''
       @ py_str py_repr (app_sync a) @ ''\<newline>''"

text \<open>
  The list comprehension of line 750:
  \<^verbatim>\<open>[pod for pod in pods if pod.status != "Running" or pod.restarts > 5]\<close>.
\<close>

definition problem_pods :: "PodMetrics list \<Rightarrow> PodMetrics list" where
  "problem_pods pods =
     filter (\<lambda>pod. PodMetrics.status pod \<noteq> ''Running'' \<or> PodMetrics.restarts pod > 5) pods"

text \<open>
  \<^verbatim>\<open>generate_markdown_report\<close> (lines 707 to 793). Beyond its six arguments the
  function reads the wall clock (line 711, the argument \<open>now\<close>) and the provider of the
  process-wide client (line 712, the argument \<open>provider\<close>). \<open>fmt_1f\<close> is the float
  format \<^verbatim>\<open>.1f\<close> of lines 719 and 720. Each \<^verbatim>\<open>report += ...\<close> is a rebinding of
  \<open>report\<close>, in the order of the source; a loop over a list appends the pieces of its
  elements in order.
\<close>

definition generate_markdown_report ::
  "(real \<Rightarrow> string) \<Rightarrow> (json \<Rightarrow> string) \<Rightarrow> datetime \<Rightarrow> ClusterProvider \<Rightarrow> ClusterHealth
     \<Rightarrow> NodeMetrics list \<Rightarrow> PodMetrics list \<Rightarrow> karpenter_analysis \<Rightarrow> argocd_status \<Rightarrow> bool
     \<Rightarrow> string" where
  "generate_markdown_report fmt_1f py_repr now provider health nodes pods karpenter argocd
       include_recommendations =
    (let report =
           ''# Kubernetes Cluster Health Report\<newline>\<newline>Generated: ''
           @ strftime_seconds now
           @ ''\<newline>Provider: ''
           @ upper (provider_value provider)
           @ ''\<newline>\<newline>## '' @ emoji_direct_hit @ '' Overall Health Status: ''
           @ overall_status health
           @ ''\<newline>\<newline>### '' @ emoji_bar_chart @ '' Cluster Summary\<newline>- **Nodes**: ''
           @ str_int (node_count health)
           @ '' total (''
           @ str_int (healthy_nodes health)
           @ '' healthy, ''
           @ str_int (unhealthy_nodes health)
           @ '' unhealthy)\<newline>- **Pods**: ''
           @ str_int (total_pods health)
           @ '' total (''
           @ str_int (running_pods health)
           @ '' running, ''
           @ str_int (pending_pods health)
           @ '' pending, ''
           @ str_int (failed_pods health)
           @ '' failed)\<newline>- **CPU Utilization**: ''
           @ fmt_1f (cpu_utilization health)
           @ ''%\<newline>- **Memory Utilization**: ''
           @ fmt_1f (memory_utilization health)
           @ ''%\<newline>\<newline>### '' @ emoji_red_circle @ '' Critical Issues\<newline>'';
         report = (if critical_issues health \<noteq> []
           then report @ concat (map (\<lambda>issue. ''- '' @ emoji_cross_mark @ '' '' @ issue @ ''\<newline>'') (critical_issues health))
           else report @ ''- '' @ emoji_check_mark @ '' No critical issues detected\<newline>'');
         report = report @ ''\<newline>### '' @ emoji_warning @ '' Warnings\<newline>'';
         report = (if warnings health \<noteq> []
           then report @ concat (map (\<lambda>warning. ''- '' @ emoji_warning @ '' '' @ warning @ ''\<newline>'') (warnings health))
           else report @ ''- '' @ emoji_check_mark @ '' No warnings\<newline>'');
         report = report @ ''\<newline>## '' @ emoji_desktop @ '' Node Details ('' @ str_int (int (length nodes)) @ '' nodes)\<newline>\<newline>'';
         report = report @ ''| Name | Status | CPU | Memory | Age | Version | Instance Type |\<newline>'';
         report = report @ ''|------|--------|-----|--------|-----|---------|---------------|\<newline>'';
         report = report @ concat (map node_row (take 10 nodes));
         report = (if length nodes > 10
           then report @ ''\<newline>*... and '' @ str_int (int (length nodes) - 10) @ '' more nodes*\<newline>''
           else report);
         problem = problem_pods pods;
         report = (if problem \<noteq> []
           then report @ ''\<newline>## '' @ emoji_rotating_light @ '' Problem Pods ('' @ str_int (int (length problem)) @ '' pods)\<newline>\<newline>''
                  @ ''| Name | Namespace | Status | Restarts | Node |\<newline>''
                  @ ''|------|-----------|--------|----------|------|\<newline>''
                  @ concat (map pod_row (take 20 problem))
           else report);
         report = (if karpenter_analysis.installed karpenter
           then (let report = report @ ''\<newline>## '' @ emoji_rocket @ '' Karpenter Status\<newline>'';
                     report = report @ ''- **Version**: '' @ (case karpenter_analysis.version karpenter of None \<Rightarrow> ''None'' | Some v \<Rightarrow> v) @ ''\<newline>'';
                     report = report @ ''- **Node Pools**: '' @ str_int (int (length (karpenter_analysis.node_pools karpenter))) @ ''\<newline>'';
                     report = report @ ''- **Provisioned Nodes**: '' @ str_int (karpenter_analysis.provisioned_nodes karpenter) @ ''\<newline>''
                 in if karpenter_analysis.issues karpenter \<noteq> []
                    then report @ ''\<newline>**Issues:**\<newline>''
                           @ concat (map (\<lambda>issue. ''- '' @ emoji_cross_mark @ '' '' @ issue @ ''\<newline>'') (karpenter_analysis.issues karpenter))
                    else report)
           else report @ ''\<newline>## '' @ emoji_rocket @ '' Karpenter Status\<newline>- '' @ emoji_cross_mark @ '' Not installed\<newline>'');
         report = (if argocd_status.installed argocd
           then (let report = report @ ''\<newline>## '' @ emoji_arrows @ '' ArgoCD Status\<newline>'';
                     report = report @ ''- **Applications**: '' @ str_int (int (length (argocd_status.applications argocd))) @ ''\<newline>'';
                     report = report @ ''- **Health**: '' @ argocd_status.health_status argocd @ ''\<newline>'';
                     report = report @ ''- **Sync**: '' @ argocd_status.sync_status argocd @ ''\<newline>''
                 in if argocd_status.applications argocd \<noteq> []
                    then report @ ''\<newline>**Applications:**\<newline>''
                           @ concat (map (application_line py_repr)
                               (take 10 (argocd_status.applications argocd)))
                    else report)
           else report @ ''\<newline>## '' @ emoji_arrows @ '' ArgoCD Status\<newline>- '' @ emoji_cross_mark @ '' Not installed\<newline>'');
         report = (if include_recommendations \<and> ClusterHealth.recommendations health \<noteq> []
           then report @ ''\<newline>## '' @ emoji_bulb @ '' Recommendations\<newline>''
                  @ concat (map (\<lambda>rec. ''- '' @ emoji_wrench @ '' '' @ rec @ ''\<newline>'') (ClusterHealth.recommendations health))
           else report)
     in report)"

text \<open>
  The report in pieces, for the statements about it. \<open>report_title\<close> is the text up to
  the time stamp; \<open>report_summary\<close> runs from the provider line to the end of the node
  table (lines 712 to 747); \<open>report_addons\<close> is everything after the problem pods (lines
  759 to 791).
\<close>

definition report_title :: string where
  "report_title = ''# Kubernetes Cluster Health Report\<newline>\<newline>Generated: ''"

definition report_summary ::
  "(real \<Rightarrow> string) \<Rightarrow> ClusterProvider \<Rightarrow> ClusterHealth \<Rightarrow> NodeMetrics list \<Rightarrow> string" where
  "report_summary fmt_1f provider health nodes =
     ''\<newline>Provider: ''
       @ upper (provider_value provider)
       @ ''\<newline>\<newline>## '' @ emoji_direct_hit @ '' Overall Health Status: ''
       @ overall_status health
       @ ''\<newline>\<newline>### '' @ emoji_bar_chart @ '' Cluster Summary\<newline>- **Nodes**: ''
       @ str_int (node_count health)
       @ '' total (''
       @ str_int (healthy_nodes health)
       @ '' healthy, ''
       @ str_int (unhealthy_nodes health)
       @ '' unhealthy)\<newline>- **Pods**: ''
       @ str_int (total_pods health)
       @ '' total (''
       @ str_int (running_pods health)
       @ '' running, ''
       @ str_int (pending_pods health)
       @ '' pending, ''
       @ str_int (failed_pods health)
       @ '' failed)\<newline>- **CPU Utilization**: ''
       @ fmt_1f (cpu_utilization health)
       @ ''%\<newline>- **Memory Utilization**: ''
       @ fmt_1f (memory_utilization health)
       @ ''%\<newline>\<newline>### '' @ emoji_red_circle @ '' Critical Issues\<newline>''
       @ (if critical_issues health \<noteq> []
        then concat (map (\<lambda>issue. ''- '' @ emoji_cross_mark @ '' '' @ issue @ ''\<newline>'') (critical_issues health))
        else ''- '' @ emoji_check_mark @ '' No critical issues detected\<newline>'')
       @ ''\<newline>### '' @ emoji_warning @ '' Warnings\<newline>''
       @ (if warnings health \<noteq> []
        then concat (map (\<lambda>warning. ''- '' @ emoji_warning @ '' '' @ warning @ ''\<newline>'') (warnings health))
        else ''- '' @ emoji_check_mark @ '' No warnings\<newline>'')
       @ ''\<newline>## '' @ emoji_desktop @ '' Node Details ('' @ str_int (int (length nodes)) @ '' nodes)\<newline>\<newline>''
       @ ''| Name | Status | CPU | Memory | Age | Version | Instance Type |\<newline>''
       @ ''|------|--------|-----|--------|-----|---------|---------------|\<newline>''
       @ concat (map node_row (take 10 nodes))
       @ (if length nodes > 10
        then ''\<newline>*... and '' @ str_int (int (length nodes) - 10) @ '' more nodes*\<newline>''
        else [])"

definition report_addons ::
  "(json \<Rightarrow> string) \<Rightarrow> ClusterHealth \<Rightarrow> karpenter_analysis \<Rightarrow> argocd_status \<Rightarrow> bool \<Rightarrow> string" where
  "report_addons py_repr health karpenter argocd include_recommendations =
     (if karpenter_analysis.installed karpenter
        then ''\<newline>## '' @ emoji_rocket @ '' Karpenter Status\<newline>''
          @ ''- **Version**: '' @ (case karpenter_analysis.version karpenter of None \<Rightarrow> ''None'' | Some v \<Rightarrow> v) @ ''\<newline>''
          @ ''- **Node Pools**: '' @ str_int (int (length (karpenter_analysis.node_pools karpenter))) @ ''\<newline>''
          @ ''- **Provisioned Nodes**: '' @ str_int (karpenter_analysis.provisioned_nodes karpenter) @ ''\<newline>''
          @ (if karpenter_analysis.issues karpenter \<noteq> []
             then ''\<newline>**Issues:**\<newline>''
               @ concat (map (\<lambda>issue. ''- '' @ emoji_cross_mark @ '' '' @ issue @ ''\<newline>'') (karpenter_analysis.issues karpenter))
             else [])
        else ''\<newline>## '' @ emoji_rocket @ '' Karpenter Status\<newline>- '' @ emoji_cross_mark @ '' Not installed\<newline>'')
       @ (if argocd_status.installed argocd
        then ''\<newline>## '' @ emoji_arrows @ '' ArgoCD Status\<newline>''
          @ ''- **Applications**: '' @ str_int (int (length (argocd_status.applications argocd))) @ ''\<newline>''
          @ ''- **Health**: '' @ argocd_status.health_status argocd @ ''\<newline>''
          @ ''- **Sync**: '' @ argocd_status.sync_status argocd @ ''\<newline>''
          @ (if argocd_status.applications argocd \<noteq> []
             then ''\<newline>**Applications:**\<newline>''
               @ concat (map (application_line py_repr) (take 10 (argocd_status.applications argocd)))
             else [])
        else ''\<newline>## '' @ emoji_arrows @ '' ArgoCD Status\<newline>- '' @ emoji_cross_mark @ '' Not installed\<newline>'')
       @ (if include_recommendations \<and> ClusterHealth.recommendations health \<noteq> []
        then ''\<newline>## '' @ emoji_bulb @ '' Recommendations\<newline>''
          @ concat (map (\<lambda>rec. ''- '' @ emoji_wrench @ '' '' @ rec @ ''\<newline>'') (ClusterHealth.recommendations health))
        else [])"

section \<open>The structured report\<close>

text \<open>
  \<^verbatim>\<open>asdict\<close> of the dataclasses: the dict of the fields in the order of their
  declaration, \<^verbatim>\<open>None\<close> for an absent optional string.
\<close>

definition opt_str_json :: "string option \<Rightarrow> json" where
  "opt_str_json v = (case v of None \<Rightarrow> JNull | Some s \<Rightarrow> JStr s)"

definition health_dict :: "ClusterHealth \<Rightarrow> json" where
  "health_dict h =
     JObj [(''overall_status'', JStr (overall_status h)),
           (''node_count'', JInt (node_count h)),
           (''healthy_nodes'', JInt (healthy_nodes h)),
           (''unhealthy_nodes'', JInt (unhealthy_nodes h)),
           (''total_pods'', JInt (total_pods h)),
           (''running_pods'', JInt (running_pods h)),
           (''pending_pods'', JInt (pending_pods h)),
           (''failed_pods'', JInt (failed_pods h)),
           (''cpu_utilization'', JFloat (cpu_utilization h)),
           (''memory_utilization'', JFloat (memory_utilization h)),
           (''disk_utilization'', JFloat (disk_utilization h)),
           (''critical_issues'', JList (map JStr (critical_issues h))),
           (''warnings'', JList (map JStr (warnings h))),
           (''recommendations'', JList (map JStr (ClusterHealth.recommendations h)))]"

definition node_dict :: "NodeMetrics \<Rightarrow> json" where
  "node_dict n =
     JObj [(''name'', JStr (NodeMetrics.name n)),
           (''cpu_usage'', JStr (NodeMetrics.cpu_usage n)),
           (''memory_usage'', JStr (NodeMetrics.memory_usage n)),
           (''disk_usage'', JStr (NodeMetrics.disk_usage n)),
           (''status'', JStr (NodeMetrics.status n)),
           (''age'', JStr (NodeMetrics.age n)),
           (''version'', JStr (NodeMetrics.version n)),
           (''instance_type'', opt_str_json (NodeMetrics.instance_type n)),
           (''zone'', opt_str_json (NodeMetrics.zone n))]"

text \<open>The two addon dicts as the values they are.\<close>

definition node_pool_dict :: "node_pool \<Rightarrow> json" where
  "node_pool_dict np =
     JObj [(''name'', node_pool.name np),
           (''instance_types'', node_pool.instance_types np),
           (''limits'', node_pool.limits np)]"

definition karpenter_dict :: "karpenter_analysis \<Rightarrow> json" where
  "karpenter_dict k =
     JObj [(''installed'', JBool (karpenter_analysis.installed k)),
           (''version'', opt_str_json (karpenter_analysis.version k)),
           (''node_pools'', JList (map node_pool_dict (karpenter_analysis.node_pools k))),
           (''provisioned_nodes'', JInt (karpenter_analysis.provisioned_nodes k)),
           (''issues'', JList (map JStr (karpenter_analysis.issues k))),
           (''recommendations'', JList (map JStr (karpenter_analysis.recommendations k)))]"

definition app_info_dict :: "app_info \<Rightarrow> json" where
  "app_info_dict a =
     JObj [(''name'', app_name a), (''health'', app_health a), (''sync'', app_sync a),
           (''repo'', app_repo a)]"

definition argocd_dict :: "argocd_status \<Rightarrow> json" where
  "argocd_dict a =
     JObj [(''installed'', JBool (argocd_status.installed a)),
           (''applications'', JList (map app_info_dict (argocd_status.applications a))),
           (''health_status'', JStr (argocd_status.health_status a)),
           (''sync_status'', JStr (argocd_status.sync_status a))]"

text \<open>
  \<^verbatim>\<open>report_data\<close> of lines 676 to 682 (yaml) and 685 to 691 (json), the same dict in
  both branches. The handler reads the wall clock for it (\<open>now\<close>).
\<close>

definition report_data ::
  "datetime \<Rightarrow> ClusterHealth \<Rightarrow> NodeMetrics list \<Rightarrow> karpenter_analysis \<Rightarrow> argocd_status \<Rightarrow> json" where
  "report_data now health nodes karpenter argocd =
     JObj [(''cluster_health'', health_dict health),
           (''nodes'', JList (map node_dict nodes)),
           (''karpenter'', karpenter_dict karpenter),
           (''argocd'', argocd_dict argocd),
           (''generated_at'', JStr (isoformat now))]"

text \<open>
  What the branch \<^verbatim>\<open>generate_health_report\<close> of \<^verbatim>\<open>handle_call_tool\<close> returns (lines
  662 to 694), from the point where the five results have been gathered (lines 667 to
  671): the markdown text, or the text that \<^verbatim>\<open>yaml.dump\<close> or \<^verbatim>\<open>json.dumps\<close> gives for
  \<open>report_data\<close>. The two serializers are library functions; their result is kept as the
  value they are applied to. Every format other than "markdown" and "yaml" takes the
  json branch.
\<close>

datatype report_text =
    Markdown string
  | YamlDump json
  | JsonDumps json

definition generate_health_report ::
  "(real \<Rightarrow> string) \<Rightarrow> (json \<Rightarrow> string) \<Rightarrow> datetime \<Rightarrow> ClusterProvider \<Rightarrow> string \<Rightarrow> bool
     \<Rightarrow> ClusterHealth \<Rightarrow> NodeMetrics list \<Rightarrow> PodMetrics list \<Rightarrow> karpenter_analysis
     \<Rightarrow> argocd_status \<Rightarrow> report_text" where
  "generate_health_report fmt_1f py_repr now provider format_type include_recommendations
       health nodes pods karpenter argocd =
     (if format_type = ''markdown''
      then Markdown (generate_markdown_report fmt_1f py_repr now provider health nodes pods
                       karpenter argocd include_recommendations)
      else if format_type = ''yaml''
      then YamlDump (report_data now health nodes karpenter argocd)
      else JsonDumps (report_data now health nodes karpenter argocd))"

section \<open>The resource-fix generator\<close>

text \<open>
  An f-string is a template: literal text with replacement fields. Python reads it from
  left to right: \<^verbatim>\<open>{{\<close> and \<^verbatim>\<open>}}\<close> are a literal brace, \<^verbatim>\<open>{\<close> opens a field that the
  next \<^verbatim>\<open>}\<close> closes, and a \<^verbatim>\<open>}\<close> that is neither is a syntax error ("single '}' is
  not allowed"), as are an empty field and a field left open. The fields of the
  templates here are plain names; an opening brace inside a field is not modelled
  (\<open>UnmodelledField\<close>).
\<close>

datatype piece = Text string | Replacement string

datatype fstring_error =
    SingleClosingBrace
  | EmptyExpression
  | UnclosedField
  | UnmodelledField

datatype fstring_state = Literal | OpenSeen | CloseSeen | InField string

fun scan_fstring :: "fstring_state \<Rightarrow> string \<Rightarrow> string \<Rightarrow> fstring_error + piece list" where
  "scan_fstring Literal lit [] = Inr [Text lit]"
| "scan_fstring OpenSeen lit [] = Inl UnclosedField"
| "scan_fstring CloseSeen lit [] = Inl SingleClosingBrace"
| "scan_fstring (InField e) lit [] = Inl UnclosedField"
| "scan_fstring Literal lit (c # cs) =
     (if c = CHR 0x7B then scan_fstring OpenSeen lit cs
      else if c = CHR 0x7D then scan_fstring CloseSeen lit cs
      else scan_fstring Literal (lit @ [c]) cs)"
| "scan_fstring OpenSeen lit (c # cs) =
     (if c = CHR 0x7B then scan_fstring Literal (lit @ [c]) cs
      else if c = CHR 0x7D then Inl EmptyExpression
      else scan_fstring (InField [c]) lit cs)"
| "scan_fstring CloseSeen lit (c # cs) =
     (if c = CHR 0x7D then scan_fstring Literal (lit @ [c]) cs else Inl SingleClosingBrace)"
| "scan_fstring (InField e) lit (c # cs) =
     (if c = CHR 0x7D
      then (case scan_fstring Literal [] cs of
              Inl err \<Rightarrow> Inl err
            | Inr rest \<Rightarrow> Inr (Text lit # Replacement e # rest))
      else if c = CHR 0x7B then Inl UnmodelledField
      else scan_fstring (InField (e @ [c])) lit cs)"

definition parse_fstring :: "string \<Rightarrow> fstring_error + piece list" where
  "parse_fstring s = scan_fstring Literal [] s"

text \<open>
  The value of a template for the three arguments of \<^verbatim>\<open>generate_resource_fixes\<close>; a
  field of any other name raises NameError.
\<close>

datatype fix_error = SyntaxError fstring_error | NameError string

fun fill :: "string \<Rightarrow> string \<Rightarrow> string \<Rightarrow> piece list \<Rightarrow> fix_error + string" where
  "fill issue_type target ns [] = Inr []"
| "fill issue_type target ns (Text s # rest) =
     (case fill issue_type target ns rest of Inl e \<Rightarrow> Inl e | Inr t \<Rightarrow> Inr (s @ t))"
| "fill issue_type target ns (Replacement f # rest) =
     (if f = ''target''
      then (case fill issue_type target ns rest of Inl e \<Rightarrow> Inl e | Inr t \<Rightarrow> Inr (target @ t))
      else if f = ''namespace''
      then (case fill issue_type target ns rest of Inl e \<Rightarrow> Inl e | Inr t \<Rightarrow> Inr (ns @ t))
      else if f = ''issue_type''
      then (case fill issue_type target ns rest of
              Inl e \<Rightarrow> Inl e | Inr t \<Rightarrow> Inr (issue_type @ t))
      else Inl (NameError f))"

text \<open>
  The text of the f-string of lines 799 to 817, the manifest for "resource_limits", as
  it stands in the source between the two triple quotes.
\<close>

definition resource_limits_fstring :: string where
  \<open>resource_limits_fstring =
     ''# Resource Limits Fix for {target}\<newline>''
       @ ''apiVersion: v1\<newline>''
       @ ''kind: LimitRange\<newline>''
       @ ''metadata:\<newline>''
       @ ''  name: {target}-limits\<newline>''
       @ ''  namespace: {namespace}\<newline>''
       @ ''spec:\<newline>''
       @ ''  limits:\<newline>''
       @ ''  - default:\<newline>''
       @ ''      cpu: "500m"\<newline>''
       @ ''      memory: "512Mi"\<newline>''
       @ ''    defaultRequest:\<newline>''
       @ ''      cpu: "100m"\<newline>''
       @ ''      memory: "128Mi"\<newline>''
       @ ''    type: Container\<newline>''
       @ ''---\<newline>''
       @ ''# Patch for existing deployment\<newline>''
       @ ''# kubectl patch deployment {target} -n {namespace} -p '{{"spec":{{"template":{{"spec":{{"containers":[{{"name":"{target}","resources":{{"limits":{{"cpu":"500m","memory":"512Mi"}},"requests":{{"cpu":"100m","memory":"128Mi"}}}}}}]}}}}}}}'\<newline>''\<close>

text \<open>
  \<^verbatim>\<open>generate_resource_fixes\<close> (lines 795 to 820). Python compiles the f-strings of a
  function with the module, before any call: a malformed one is a SyntaxError for every
  call. The source file ends at line 820, in the first line of the template for "hpa";
  what the function does for the issue types other than "resource_limits" is the
  parameter \<open>later_branches\<close>.
\<close>

definition generate_resource_fixes ::
  "(string \<Rightarrow> string \<Rightarrow> string \<Rightarrow> fix_error + string) \<Rightarrow> string \<Rightarrow> string \<Rightarrow> string
     \<Rightarrow> fix_error + string" where
  "generate_resource_fixes later_branches issue_type target ns =
     (case parse_fstring resource_limits_fstring of
        Inl err \<Rightarrow> Inl (SyntaxError err)
      | Inr template \<Rightarrow>
          if issue_type = ''resource_limits''
          then fill issue_type target ns template
          else later_branches issue_type target ns)"

section \<open>Concrete inputs of the renderer\<close>

text \<open>
  Stand-ins for two library functions, right on the values used here: the float format
  \<^verbatim>\<open>.1f\<close> of 0.0 is "0.0", and no value that needs \<^verbatim>\<open>repr\<close> occurs. A clock
  reading, and pod records by name, phase and restart count.
\<close>

definition example_fmt_1f :: "real \<Rightarrow> string" where
  "example_fmt_1f x = (if x = 0 then ''0.0'' else ''?'')"

definition example_repr :: "json \<Rightarrow> string" where
  "example_repr v = ''?''"

definition example_now :: datetime where
  "example_now =
     \<lparr>year = 2024, month = 3, day = 7, hour = 9, minute = 5, second = 0, microsecond = 0\<rparr>"

definition example_pod_record :: "string \<Rightarrow> string \<Rightarrow> int \<Rightarrow> PodMetrics" where
  "example_pod_record n phase r =
     \<lparr>PodMetrics.name = n, namespace = ''default'', status = phase, cpu_usage = ''N/A'',
      memory_usage = ''N/A'', restarts = r, age = ''1d'', node = ''n1''\<rparr>"

section \<open>Basic facts\<close>

lemma str_nat_nonempty: "str_nat n \<noteq> []"
  by (subst str_nat.simps) simp

lemma str_int_nonempty: "str_int i \<noteq> []"
  by (simp add: str_int_def str_nat_nonempty)

lemma count_where_le: "count_where c xs \<le> int (length xs)"
  by (simp add: count_where_def)

lemma count_where_nonneg: "0 \<le> count_where c xs"
  by (simp add: count_where_def)

lemma critical_issues_eq:
  "critical_issues (analyze_cluster_health nodes pods) =
     (if int (length nodes) - count_where (\<lambda>node. NodeMetrics.status node = ''Ready'') nodes > 0
      then [str_int (int (length nodes) -
              count_where (\<lambda>node. NodeMetrics.status node = ''Ready'') nodes)
            @ '' nodes are not ready''] else []) @
     (if count_where (\<lambda>pod. PodMetrics.status pod \<in> set [''Failed'', ''CrashLoopBackOff'']) pods > 0
      then [str_int (count_where
              (\<lambda>pod. PodMetrics.status pod \<in> set [''Failed'', ''CrashLoopBackOff'']) pods)
            @ '' pods are in failed state''] else [])"
  by (simp add: analyze_cluster_health_def Let_def)

lemma warnings_eq:
  "warnings (analyze_cluster_health nodes pods) =
     (if count_where (\<lambda>pod. PodMetrics.status pod = ''Pending'') pods > 0
      then [str_int (count_where (\<lambda>pod. PodMetrics.status pod = ''Pending'') pods)
            @ '' pods are pending''] else []) @
     (if high_restart_pods pods \<noteq> []
      then [str_int (int (length (high_restart_pods pods)))
            @ '' pods have high restart counts''] else [])"
  by (simp add: analyze_cluster_health_def Let_def)

lemma recommendations_eq:
  "ClusterHealth.recommendations (analyze_cluster_health nodes pods) =
     (if int (length nodes) - count_where (\<lambda>node. NodeMetrics.status node = ''Ready'') nodes > 0
      then [''Investigate unhealthy nodes and consider replacement''] else []) @
     (if count_where (\<lambda>pod. PodMetrics.status pod = ''Pending'') pods > 0
      then [''Check resource constraints and node availability''] else []) @
     (if high_restart_pods pods \<noteq> []
      then [''Investigate pods with high restart counts for stability issues''] else [])"
  by (simp add: analyze_cluster_health_def Let_def)

lemma overall_status_eq:
  "overall_status (analyze_cluster_health nodes pods) =
     (if critical_issues (analyze_cluster_health nodes pods) \<noteq> [] then ''Critical''
      else if warnings (analyze_cluster_health nodes pods) \<noteq> [] then ''Warning''
      else ''Healthy'')"
  by (simp add: analyze_cluster_health_def Let_def)

lemma unhealthy_nodes_eq:
  "unhealthy_nodes (analyze_cluster_health nodes pods) =
     int (length nodes) - count_where (\<lambda>node. NodeMetrics.status node = ''Ready'') nodes"
  by (simp add: analyze_cluster_health_def Let_def)

section \<open>Overall status is derived from the two lists\<close>

text \<open>
  Claim C1. For every node list and pod list, the health record returned by
  \<open>analyze_cluster_health\<close> has overall status "Critical" exactly when its list of
  critical issues is non-empty; when that list is empty the status is "Warning" exactly
  when the list of warnings is non-empty; and when both lists are empty the status is
  "Healthy".
\<close>

theorem overall_status_from_lists:
  "(overall_status (analyze_cluster_health nodes pods) = ''Critical'')
     = (critical_issues (analyze_cluster_health nodes pods) \<noteq> []) \<and>
   (critical_issues (analyze_cluster_health nodes pods) = [] \<longrightarrow>
     (overall_status (analyze_cluster_health nodes pods) = ''Warning'')
       = (warnings (analyze_cluster_health nodes pods) \<noteq> [])) \<and>
   (critical_issues (analyze_cluster_health nodes pods) = [] \<and>
    warnings (analyze_cluster_health nodes pods) = [] \<longrightarrow>
     overall_status (analyze_cluster_health nodes pods) = ''Healthy'')"
  by (simp add: overall_status_eq)

theorem overall_status_from_lists_witness:
  "critical_issues (analyze_cluster_health []
      [\<lparr>PodMetrics.name = ''web'', namespace = ''default'', status = ''Pending'',
        cpu_usage = ''N/A'', memory_usage = ''N/A'', restarts = 5, age = ''1d'',
        node = ''N/A''\<rparr>]) = [] \<and>
   warnings (analyze_cluster_health []
      [\<lparr>PodMetrics.name = ''web'', namespace = ''default'', status = ''Pending'',
        cpu_usage = ''N/A'', memory_usage = ''N/A'', restarts = 5, age = ''1d'',
        node = ''N/A''\<rparr>]) = [''1 pods are pending''] \<and>
   overall_status (analyze_cluster_health []
      [\<lparr>PodMetrics.name = ''web'', namespace = ''default'', status = ''Pending'',
        cpu_usage = ''N/A'', memory_usage = ''N/A'', restarts = 5, age = ''1d'',
        node = ''N/A''\<rparr>]) = ''Warning''"
  using overall_status_from_lists [of "[]"
      "[\<lparr>PodMetrics.name = ''web'', namespace = ''default'', status = ''Pending'',
         cpu_usage = ''N/A'', memory_usage = ''N/A'', restarts = 5, age = ''1d'',
         node = ''N/A''\<rparr>]"]
  by (simp add: critical_issues_eq warnings_eq count_where_def high_restart_pods_def
        str_int_def str_nat.simps digit_char_def)

section \<open>Node counts, and unhealthy nodes make the cluster critical\<close>

text \<open>
  Claim C8. For every node list and every pod list, the health record satisfies
  healthy nodes + unhealthy nodes = node count, and whenever the number of unhealthy
  nodes is positive the overall status is exactly "Critical", whatever the pod list.
\<close>

theorem node_counts_and_critical:
  "healthy_nodes (analyze_cluster_health nodes pods)
     + unhealthy_nodes (analyze_cluster_health nodes pods)
     = node_count (analyze_cluster_health nodes pods) \<and>
   (unhealthy_nodes (analyze_cluster_health nodes pods) > 0 \<longrightarrow>
     overall_status (analyze_cluster_health nodes pods) = ''Critical'')"
proof
  show "healthy_nodes (analyze_cluster_health nodes pods)
     + unhealthy_nodes (analyze_cluster_health nodes pods)
     = node_count (analyze_cluster_health nodes pods)"
    by (simp add: analyze_cluster_health_def Let_def)
next
  show "unhealthy_nodes (analyze_cluster_health nodes pods) > 0 \<longrightarrow>
     overall_status (analyze_cluster_health nodes pods) = ''Critical''"
    by (simp add: overall_status_eq critical_issues_eq unhealthy_nodes_eq)
qed

text \<open>
  The scenario of the specification: three nodes of which one is not ready, no pods.
\<close>

theorem node_counts_and_critical_witness:
  "unhealthy_nodes (analyze_cluster_health
      [\<lparr>NodeMetrics.name = ''n1'', cpu_usage = ''N/A'', memory_usage = ''N/A'',
        disk_usage = ''N/A'', status = ''Ready'', age = ''3d'', version = ''v1.29.0'',
        instance_type = None, zone = None\<rparr>,
       \<lparr>NodeMetrics.name = ''n2'', cpu_usage = ''N/A'', memory_usage = ''N/A'',
        disk_usage = ''N/A'', status = ''NotReady'', age = ''3d'', version = ''v1.29.0'',
        instance_type = None, zone = None\<rparr>,
       \<lparr>NodeMetrics.name = ''n3'', cpu_usage = ''N/A'', memory_usage = ''N/A'',
        disk_usage = ''N/A'', status = ''Ready'', age = ''3d'', version = ''v1.29.0'',
        instance_type = None, zone = None\<rparr>] []) = 1 \<and>
   overall_status (analyze_cluster_health
      [\<lparr>NodeMetrics.name = ''n1'', cpu_usage = ''N/A'', memory_usage = ''N/A'',
        disk_usage = ''N/A'', status = ''Ready'', age = ''3d'', version = ''v1.29.0'',
        instance_type = None, zone = None\<rparr>,
       \<lparr>NodeMetrics.name = ''n2'', cpu_usage = ''N/A'', memory_usage = ''N/A'',
        disk_usage = ''N/A'', status = ''NotReady'', age = ''3d'', version = ''v1.29.0'',
        instance_type = None, zone = None\<rparr>,
       \<lparr>NodeMetrics.name = ''n3'', cpu_usage = ''N/A'', memory_usage = ''N/A'',
        disk_usage = ''N/A'', status = ''Ready'', age = ''3d'', version = ''v1.29.0'',
        instance_type = None, zone = None\<rparr>] []) = ''Critical''"
  using node_counts_and_critical [of
      "[\<lparr>NodeMetrics.name = ''n1'', cpu_usage = ''N/A'', memory_usage = ''N/A'',
        disk_usage = ''N/A'', status = ''Ready'', age = ''3d'', version = ''v1.29.0'',
        instance_type = None, zone = None\<rparr>,
       \<lparr>NodeMetrics.name = ''n2'', cpu_usage = ''N/A'', memory_usage = ''N/A'',
        disk_usage = ''N/A'', status = ''NotReady'', age = ''3d'', version = ''v1.29.0'',
        instance_type = None, zone = None\<rparr>,
       \<lparr>NodeMetrics.name = ''n3'', cpu_usage = ''N/A'', memory_usage = ''N/A'',
        disk_usage = ''N/A'', status = ''Ready'', age = ''3d'', version = ''v1.29.0'',
        instance_type = None, zone = None\<rparr>]" "[]"]
  by (simp add: unhealthy_nodes_eq count_where_def)

section \<open>The restart threshold\<close>

lemma pending_not_restart_msg:
  "\<not> suffix '' pods have high restart counts'' (a @ '' pods are pending'')"
proof
  assume "suffix '' pods have high restart counts'' (a @ '' pods are pending'')"
  then obtain zs where "a @ '' pods are pending'' = zs @ '' pods have high restart counts''"
    by (auto simp: suffix_def)
  then have "last (a @ '' pods are pending'') = last (zs @ '' pods have high restart counts'')"
    by simp
  then show False by simp
qed

lemma pending_neq_restart_msg:
  "a @ '' pods are pending'' \<noteq> b @ '' pods have high restart counts''"
proof
  assume "a @ '' pods are pending'' = b @ '' pods have high restart counts''"
  then have "last (a @ '' pods are pending'') = last (b @ '' pods have high restart counts'')"
    by simp
  then show False by simp
qed

text \<open>
  Claim C9. The high-restart threshold is exclusive at 5. For every pod list: a pod with
  exactly 5 restarts is not among the high-restart pods and a pod of the list with 6
  restarts is; the high-restart pods are exactly the pods of the list with more than 5
  restarts; the warnings hold a high-restart warning exactly when that set is non-empty,
  and then it carries the number of such pods; and the restart-investigation
  recommendation is present exactly when that set is non-empty.
\<close>

theorem restart_threshold:
  "(restarts p = 5 \<longrightarrow> p \<notin> set (high_restart_pods pods)) \<and>
   (p \<in> set pods \<and> restarts p = 6 \<longrightarrow> p \<in> set (high_restart_pods pods)) \<and>
   (set (high_restart_pods pods) = {q \<in> set pods. restarts q > 5}) \<and>
   ((\<exists>w \<in> set (warnings (analyze_cluster_health nodes pods)).
        suffix '' pods have high restart counts'' w)
      = (high_restart_pods pods \<noteq> [])) \<and>
   ((str_int (int (length (high_restart_pods pods))) @ '' pods have high restart counts''
        \<in> set (warnings (analyze_cluster_health nodes pods)))
      = (high_restart_pods pods \<noteq> [])) \<and>
   ((''Investigate pods with high restart counts for stability issues''
        \<in> set (ClusterHealth.recommendations (analyze_cluster_health nodes pods)))
      = (high_restart_pods pods \<noteq> []))"
proof (intro conjI)
  show "restarts p = 5 \<longrightarrow> p \<notin> set (high_restart_pods pods)"
    by (simp add: high_restart_pods_def)
  show "p \<in> set pods \<and> restarts p = 6 \<longrightarrow> p \<in> set (high_restart_pods pods)"
    by (simp add: high_restart_pods_def)
  show "set (high_restart_pods pods) = {q \<in> set pods. restarts q > 5}"
    by (auto simp add: high_restart_pods_def)
  show "(\<exists>w \<in> set (warnings (analyze_cluster_health nodes pods)).
        suffix '' pods have high restart counts'' w)
      = (high_restart_pods pods \<noteq> [])"
    using pending_not_restart_msg by (auto simp add: warnings_eq suffix_def)
  show "(str_int (int (length (high_restart_pods pods))) @ '' pods have high restart counts''
        \<in> set (warnings (analyze_cluster_health nodes pods)))
      = (high_restart_pods pods \<noteq> [])"
    using pending_neq_restart_msg [of _ "str_int (int (length (high_restart_pods pods)))"]
    by (auto simp add: warnings_eq)
  show "(''Investigate pods with high restart counts for stability issues''
        \<in> set (ClusterHealth.recommendations (analyze_cluster_health nodes pods)))
      = (high_restart_pods pods \<noteq> [])"
    by (simp add: recommendations_eq)
qed

text \<open>
  Two running pods, one with 5 restarts and one with 6: only the second is counted.
\<close>

theorem restart_threshold_witness:
  "high_restart_pods
      [\<lparr>PodMetrics.name = ''five'', namespace = ''default'', status = ''Running'',
        cpu_usage = ''N/A'', memory_usage = ''N/A'', restarts = 5, age = ''1d'',
        node = ''n1''\<rparr>,
       \<lparr>PodMetrics.name = ''six'', namespace = ''default'', status = ''Running'',
        cpu_usage = ''N/A'', memory_usage = ''N/A'', restarts = 6, age = ''1d'',
        node = ''n1''\<rparr>]
    = [\<lparr>PodMetrics.name = ''six'', namespace = ''default'', status = ''Running'',
        cpu_usage = ''N/A'', memory_usage = ''N/A'', restarts = 6, age = ''1d'',
        node = ''n1''\<rparr>] \<and>
   ''1 pods have high restart counts'' \<in> set (warnings (analyze_cluster_health []
      [\<lparr>PodMetrics.name = ''five'', namespace = ''default'', status = ''Running'',
        cpu_usage = ''N/A'', memory_usage = ''N/A'', restarts = 5, age = ''1d'',
        node = ''n1''\<rparr>,
       \<lparr>PodMetrics.name = ''six'', namespace = ''default'', status = ''Running'',
        cpu_usage = ''N/A'', memory_usage = ''N/A'', restarts = 6, age = ''1d'',
        node = ''n1''\<rparr>]))"
proof -
  let ?five = "\<lparr>PodMetrics.name = ''five'', namespace = ''default'', status = ''Running'',
        cpu_usage = ''N/A'', memory_usage = ''N/A'', restarts = 5, age = ''1d'',
        node = ''n1''\<rparr>"
  let ?six = "\<lparr>PodMetrics.name = ''six'', namespace = ''default'', status = ''Running'',
        cpu_usage = ''N/A'', memory_usage = ''N/A'', restarts = 6, age = ''1d'',
        node = ''n1''\<rparr>"
  have h: "high_restart_pods [?five, ?six] = [?six]"
    by (simp add: high_restart_pods_def)
  have n: "str_int (int (length [?six])) = ''1''"
    by (simp add: str_int_def str_nat.simps digit_char_def)
  from restart_threshold [of ?six "[?five, ?six]" "[]"] h n show ?thesis
    by simp
qed

section \<open>A failed usage snapshot degrades to "N/A"\<close>

lemma foldl_add_node_line_skip:
  "list_all (\<lambda>line. length (split_ws line) < 3) lines \<Longrightarrow> foldl add_node_line m lines = m"
  by (induction lines arbitrary: m) (simp_all add: add_node_line_def Let_def)

lemma foldl_add_pod_line_skip:
  "list_all (\<lambda>line. length (split_ws line) < (if scope = ''all'' then 4 else 3)) lines
     \<Longrightarrow> foldl (add_pod_line scope) m lines = m"
  by (induction lines arbitrary: m) (auto simp add: add_pod_line_def Let_def split: if_splits)

lemma node_metrics_map_unusable:
  "node_snapshot_unusable metrics \<Longrightarrow> node_metrics_map metrics = Map.empty"
  by (cases metrics)
     (auto simp add: node_snapshot_unusable_def node_metrics_map_def foldl_add_node_line_skip)

lemma pod_metrics_map_unusable:
  "pod_snapshot_unusable scope metrics \<Longrightarrow> pod_metrics_map scope metrics = Map.empty"
  by (cases metrics)
     (auto simp add: pod_snapshot_unusable_def pod_metrics_map_def foldl_add_pod_line_skip)

lemma node_record_factor:
  "node_record elapsed m item =
     (case node_record elapsed Map.empty item of
        Inl e \<Rightarrow> Inl e
      | Inr r \<Rightarrow> Inr (node_with_usage m r))"
proof (cases "node_fields item")
  case (Inl e)
  then show ?thesis by (simp add: node_record_def and_then_def)
next
  case (Inr t)
  obtain name ready created version instance_type zone
    where t: "t = (name, ready, created, version, instance_type, zone)"
    by (cases t) auto
  show ?thesis
    by (cases name)
       (auto simp add: node_record_def and_then_def Inr t usage_of_def as_str_def
          node_with_usage_def split: sum.splits option.splits)
qed

lemma pod_record_factor:
  "pod_record elapsed scope m pod =
     (case pod_record elapsed scope Map.empty pod of
        Inl e \<Rightarrow> Inl e
      | Inr r \<Rightarrow> Inr (pod_with_usage scope m r))"
proof (cases "pod_fields pod")
  case (Inl e)
  then show ?thesis by (simp add: pod_record_def and_then_def)
next
  case (Inr t)
  obtain name pod_namespace phase restarts created node
    where t: "t = (name, pod_namespace, phase, restarts, created, node)"
    by (cases t) auto
  show ?thesis
    by (cases name; cases pod_namespace)
       (auto simp add: pod_record_def and_then_def Inr t usage_of_def as_str_def
          pod_with_usage_def pod_key_def split: sum.splits option.splits)
qed

lemma for_each_factor:
  assumes "\<And>x. f x = (case g x of Inl e \<Rightarrow> Inl e | Inr r \<Rightarrow> Inr (h r))"
  shows "for_each f xs = (case for_each g xs of Inl e \<Rightarrow> Inl e | Inr rs \<Rightarrow> Inr (map h rs))"
  by (induction xs) (auto simp add: assms split: sum.splits)

lemma for_each_length: "for_each f xs = Inr ys \<Longrightarrow> length ys = length xs"
  by (induction xs arbitrary: ys) (auto split: sum.splits)

lemma for_each_all:
  assumes "\<And>x y. f x = Inr y \<Longrightarrow> P y"
  shows "for_each f xs = Inr ys \<Longrightarrow> \<forall>y \<in> set ys. P y"
  by (induction xs arbitrary: ys) (auto split: sum.splits dest: assms)


lemma get_nodes_metrics_factor:
  "get_nodes_metrics L E listing metrics =
     (case get_nodes_metrics L E listing ([], [], 1) of
        Inl e \<Rightarrow> Inl e
      | Inr rs \<Rightarrow> Inr (map (node_with_usage (node_metrics_map metrics)) rs))"
proof -
  have base: "node_metrics_map ([], [], 1) = Map.empty"
    by (simp add: node_metrics_map_def)
  have fe: "for_each (node_record E m) items =
      (case for_each (node_record E Map.empty) items of
         Inl e \<Rightarrow> Inl e | Inr rs \<Rightarrow> Inr (map (node_with_usage m) rs))" for m items
    by (rule for_each_factor) (rule node_record_factor)
  show ?thesis
    by (cases listing)
       (simp add: get_nodes_metrics_def and_then_def base fe [of "node_metrics_map metrics"]
          split: option.splits sum.splits)
qed

lemma get_pods_metrics_factor:
  "get_pods_metrics L E scope listing metrics =
     (case get_pods_metrics L E scope listing ([], [], 1) of
        Inl e \<Rightarrow> Inl e
      | Inr rs \<Rightarrow> Inr (map (pod_with_usage scope (pod_metrics_map scope metrics)) rs))"
proof -
  have base: "pod_metrics_map scope ([], [], 1) = Map.empty"
    by (simp add: pod_metrics_map_def)
  have fe: "for_each (pod_record E scope m) items =
      (case for_each (pod_record E scope Map.empty) items of
         Inl e \<Rightarrow> Inl e | Inr rs \<Rightarrow> Inr (map (pod_with_usage scope m) rs))" for m items
    by (rule for_each_factor) (rule pod_record_factor)
  show ?thesis
    by (cases listing)
       (simp add: get_pods_metrics_def and_then_def base
          fe [of "pod_metrics_map scope metrics"] split: option.splits sum.splits)
qed

lemma node_with_usage_empty:
  "node_with_usage Map.empty r
     = r\<lparr>NodeMetrics.cpu_usage := ''N/A'', NodeMetrics.memory_usage := ''N/A''\<rparr>"
  by (simp add: node_with_usage_def)

lemma node_with_usage_twice: "node_with_usage m (node_with_usage m' r) = node_with_usage m r"
  by (simp add: node_with_usage_def split: option.splits)

lemma pod_with_usage_empty:
  "pod_with_usage scope Map.empty r
     = r\<lparr>PodMetrics.cpu_usage := ''N/A'', PodMetrics.memory_usage := ''N/A''\<rparr>"
  by (simp add: pod_with_usage_def)

lemma pod_with_usage_twice:
  "pod_with_usage scope m (pod_with_usage scope m' r) = pod_with_usage scope m r"
  by (simp add: pod_with_usage_def pod_key_def split: option.splits)

lemma nodes_unusable_result:
  assumes "node_snapshot_unusable metrics"
    and "get_nodes_metrics L E listing other = Inr recs0"
  shows "get_nodes_metrics L E listing metrics =
     Inr (map (\<lambda>r. r\<lparr>NodeMetrics.cpu_usage := ''N/A'', NodeMetrics.memory_usage := ''N/A''\<rparr>)
            recs0)"
proof -
  from assms(2) obtain b where b: "get_nodes_metrics L E listing ([], [], 1) = Inr b"
    and r0: "recs0 = map (node_with_usage (node_metrics_map other)) b"
    by (subst (asm) get_nodes_metrics_factor) (auto split: sum.splits)
  have "get_nodes_metrics L E listing metrics = Inr (map (node_with_usage Map.empty) b)"
    by (subst get_nodes_metrics_factor) (simp add: b node_metrics_map_unusable [OF assms(1)])
  also have "map (node_with_usage Map.empty) b = map (node_with_usage Map.empty) recs0"
    by (simp add: r0 node_with_usage_twice)
  finally show ?thesis
    by (simp add: node_with_usage_empty [abs_def])
qed

lemma pods_unusable_result:
  assumes "pod_snapshot_unusable scope metrics"
    and "get_pods_metrics L E scope listing other = Inr recs0"
  shows "get_pods_metrics L E scope listing metrics =
     Inr (map (\<lambda>r. r\<lparr>PodMetrics.cpu_usage := ''N/A'', PodMetrics.memory_usage := ''N/A''\<rparr>)
            recs0)"
proof -
  from assms(2) obtain b where b: "get_pods_metrics L E scope listing ([], [], 1) = Inr b"
    and r0: "recs0 = map (pod_with_usage scope (pod_metrics_map scope other)) b"
    by (subst (asm) get_pods_metrics_factor) (auto split: sum.splits)
  have "get_pods_metrics L E scope listing metrics = Inr (map (pod_with_usage scope Map.empty) b)"
    by (subst get_pods_metrics_factor)
       (simp add: b pod_metrics_map_unusable [OF assms(1)])
  also have "map (pod_with_usage scope Map.empty) b = map (pod_with_usage scope Map.empty) recs0"
    by (simp add: r0 pod_with_usage_twice)
  finally show ?thesis
    by (simp add: pod_with_usage_empty [abs_def])
qed

lemma nodes_joined:
  assumes "get_nodes_metrics L E listing metrics = Inr recs" and "r \<in> set recs"
  shows "node_with_usage (node_metrics_map metrics) r = r"
proof -
  from assms(1) obtain b where "recs = map (node_with_usage (node_metrics_map metrics)) b"
    by (subst (asm) get_nodes_metrics_factor) (auto split: sum.splits)
  with assms(2) show ?thesis
    by (auto simp add: node_with_usage_twice)
qed

lemma pods_joined:
  assumes "get_pods_metrics L E scope listing metrics = Inr recs" and "r \<in> set recs"
  shows "pod_with_usage scope (pod_metrics_map scope metrics) r = r"
proof -
  from assms(1) obtain b
    where "recs = map (pod_with_usage scope (pod_metrics_map scope metrics)) b"
    by (subst (asm) get_pods_metrics_factor) (auto split: sum.splits)
  with assms(2) show ?thesis
    by (auto simp add: pod_with_usage_twice)
qed

lemma nodes_one_per_item:
  "get_nodes_metrics L E listing metrics = Inr recs
     \<Longrightarrow> length recs = length (listed_items L listing)"
  by (cases listing)
     (auto simp add: get_nodes_metrics_def listed_items_def and_then_def
        split: if_splits option.splits sum.splits dest: for_each_length)

lemma pods_one_per_item:
  "get_pods_metrics L E scope listing metrics = Inr recs
     \<Longrightarrow> length recs = length (listed_items L listing)"
  by (cases listing)
     (auto simp add: get_pods_metrics_def listed_items_def and_then_def
        split: if_splits option.splits sum.splits dest: for_each_length)


lemma nodes_join_fields:
  assumes g: "get_nodes_metrics L E listing metrics = Inr recs" and r: "r \<in> set recs"
  shows "(node_metrics_map metrics (NodeMetrics.name r) = None \<longrightarrow>
            NodeMetrics.cpu_usage r = ''N/A'' \<and> NodeMetrics.memory_usage r = ''N/A'') \<and>
         (\<forall>u. node_metrics_map metrics (NodeMetrics.name r) = Some u \<longrightarrow>
            NodeMetrics.cpu_usage r = fst u \<and> NodeMetrics.memory_usage r = snd u)"
proof -
  have e: "node_with_usage (node_metrics_map metrics) r = r"
    using g r by (rule nodes_joined)
  have c: "NodeMetrics.cpu_usage (node_with_usage m r) =
      (case m (NodeMetrics.name r) of None \<Rightarrow> ''N/A'' | Some u \<Rightarrow> fst u)" for m
    by (simp add: node_with_usage_def split: option.splits)
  have d: "NodeMetrics.memory_usage (node_with_usage m r) =
      (case m (NodeMetrics.name r) of None \<Rightarrow> ''N/A'' | Some u \<Rightarrow> snd u)" for m
    by (simp add: node_with_usage_def split: option.splits)
  from c [of "node_metrics_map metrics"] d [of "node_metrics_map metrics"] show ?thesis
    unfolding e by (simp split: option.splits)
qed

lemma pods_join_fields:
  assumes g: "get_pods_metrics L E scope listing metrics = Inr recs" and r: "r \<in> set recs"
  shows "(pod_metrics_map scope metrics (pod_key scope r) = None \<longrightarrow>
            PodMetrics.cpu_usage r = ''N/A'' \<and> PodMetrics.memory_usage r = ''N/A'') \<and>
         (\<forall>u. pod_metrics_map scope metrics (pod_key scope r) = Some u \<longrightarrow>
            PodMetrics.cpu_usage r = fst u \<and> PodMetrics.memory_usage r = snd u)"
proof -
  have e: "pod_with_usage scope (pod_metrics_map scope metrics) r = r"
    using g r by (rule pods_joined)
  have c: "PodMetrics.cpu_usage (pod_with_usage scope m r) =
      (case m (pod_key scope r) of None \<Rightarrow> ''N/A'' | Some u \<Rightarrow> fst u)" for m
    by (simp add: pod_with_usage_def split: option.splits)
  have d: "PodMetrics.memory_usage (pod_with_usage scope m r) =
      (case m (pod_key scope r) of None \<Rightarrow> ''N/A'' | Some u \<Rightarrow> snd u)" for m
    by (simp add: pod_with_usage_def split: option.splits)
  from c [of "pod_metrics_map scope metrics"] d [of "pod_metrics_map scope metrics"]
  show ?thesis
    unfolding e by (simp split: option.splits)
qed

lemma nodes_unusable_fields:
  assumes "node_snapshot_unusable metrics"
    and "get_nodes_metrics L E listing metrics = Inr recs" and "r \<in> set recs"
  shows "NodeMetrics.cpu_usage r = ''N/A'' \<and> NodeMetrics.memory_usage r = ''N/A''"
  using nodes_join_fields [OF assms(2,3)] node_metrics_map_unusable [OF assms(1)]
  by simp

lemma pods_unusable_fields:
  assumes "pod_snapshot_unusable scope metrics"
    and "get_pods_metrics L E scope listing metrics = Inr recs" and "r \<in> set recs"
  shows "PodMetrics.cpu_usage r = ''N/A'' \<and> PodMetrics.memory_usage r = ''N/A''"
  using pods_join_fields [OF assms(2,3)] pod_metrics_map_unusable [OF assms(1)]
  by simp

lemma nodes_unusable_part:
  "node_snapshot_unusable metrics \<longrightarrow>
      (\<forall>recs. get_nodes_metrics L E listing metrics = Inr recs \<longrightarrow>
         length recs = length (listed_items L listing) \<and>
         (\<forall>r \<in> set recs. NodeMetrics.cpu_usage r = ''N/A'' \<and>
                           NodeMetrics.memory_usage r = ''N/A'')) \<and>
      (\<forall>other recs0. get_nodes_metrics L E listing other = Inr recs0 \<longrightarrow>
         get_nodes_metrics L E listing metrics =
           Inr (map (\<lambda>r. r\<lparr>NodeMetrics.cpu_usage := ''N/A'',
                            NodeMetrics.memory_usage := ''N/A''\<rparr>) recs0))"
  using nodes_one_per_item nodes_unusable_fields nodes_unusable_result by blast

lemma pods_unusable_part:
  "pod_snapshot_unusable scope pod_metrics \<longrightarrow>
      (\<forall>recs. get_pods_metrics L E scope pod_listing pod_metrics = Inr recs \<longrightarrow>
         length recs = length (listed_items L pod_listing) \<and>
         (\<forall>r \<in> set recs. PodMetrics.cpu_usage r = ''N/A'' \<and>
                           PodMetrics.memory_usage r = ''N/A'')) \<and>
      (\<forall>other recs0. get_pods_metrics L E scope pod_listing other = Inr recs0 \<longrightarrow>
         get_pods_metrics L E scope pod_listing pod_metrics =
           Inr (map (\<lambda>r. r\<lparr>PodMetrics.cpu_usage := ''N/A'',
                            PodMetrics.memory_usage := ''N/A''\<rparr>) recs0))"
  using pods_one_per_item pods_unusable_fields pods_unusable_result by blast

lemma nodes_join_part:
  "\<forall>recs. get_nodes_metrics L E listing any_metrics = Inr recs \<longrightarrow>
      length recs = length (listed_items L listing) \<and>
      (\<forall>r \<in> set recs.
         (node_metrics_map any_metrics (NodeMetrics.name r) = None \<longrightarrow>
            NodeMetrics.cpu_usage r = ''N/A'' \<and> NodeMetrics.memory_usage r = ''N/A'') \<and>
         (\<forall>u. node_metrics_map any_metrics (NodeMetrics.name r) = Some u \<longrightarrow>
            NodeMetrics.cpu_usage r = fst u \<and> NodeMetrics.memory_usage r = snd u))"
  using nodes_one_per_item nodes_join_fields by blast

lemma pods_join_part:
  "\<forall>recs. get_pods_metrics L E scope pod_listing any_pod_metrics = Inr recs \<longrightarrow>
      length recs = length (listed_items L pod_listing) \<and>
      (\<forall>r \<in> set recs.
         (pod_metrics_map scope any_pod_metrics (pod_key scope r) = None \<longrightarrow>
            PodMetrics.cpu_usage r = ''N/A'' \<and> PodMetrics.memory_usage r = ''N/A'') \<and>
         (\<forall>u. pod_metrics_map scope any_pod_metrics (pod_key scope r) = Some u \<longrightarrow>
            PodMetrics.cpu_usage r = fst u \<and> PodMetrics.memory_usage r = snd u))"
  using pods_one_per_item pods_join_fields by blast

text \<open>
  What holds of the join where the listing does yield records. When the usage snapshot
  failed (non-zero return code) or has no parseable line, a run that returns records
  returns one per listed item, each with "N/A" as CPU and memory usage; and the failed
  snapshot raises nothing of its own: whenever the listing yields records with any other
  snapshot, it yields the same records, with "N/A" in both usage fields, with the failed
  one. For any snapshot, a record whose identity the snapshot does not hold has "N/A" in
  both fields and a record whose identity it holds has the snapshot's values: a miss
  touches that record only.
\<close>

lemma built_records_join_snapshot:
  "(node_snapshot_unusable metrics \<longrightarrow>
      (\<forall>recs. get_nodes_metrics L E listing metrics = Inr recs \<longrightarrow>
         length recs = length (listed_items L listing) \<and>
         (\<forall>r \<in> set recs. NodeMetrics.cpu_usage r = ''N/A'' \<and>
                           NodeMetrics.memory_usage r = ''N/A'')) \<and>
      (\<forall>other recs0. get_nodes_metrics L E listing other = Inr recs0 \<longrightarrow>
         get_nodes_metrics L E listing metrics =
           Inr (map (\<lambda>r. r\<lparr>NodeMetrics.cpu_usage := ''N/A'',
                            NodeMetrics.memory_usage := ''N/A''\<rparr>) recs0))) \<and>
   (pod_snapshot_unusable scope pod_metrics \<longrightarrow>
      (\<forall>recs. get_pods_metrics L E scope pod_listing pod_metrics = Inr recs \<longrightarrow>
         length recs = length (listed_items L pod_listing) \<and>
         (\<forall>r \<in> set recs. PodMetrics.cpu_usage r = ''N/A'' \<and>
                           PodMetrics.memory_usage r = ''N/A'')) \<and>
      (\<forall>other recs0. get_pods_metrics L E scope pod_listing other = Inr recs0 \<longrightarrow>
         get_pods_metrics L E scope pod_listing pod_metrics =
           Inr (map (\<lambda>r. r\<lparr>PodMetrics.cpu_usage := ''N/A'',
                            PodMetrics.memory_usage := ''N/A''\<rparr>) recs0))) \<and>
   (\<forall>recs. get_nodes_metrics L E listing any_metrics = Inr recs \<longrightarrow>
      length recs = length (listed_items L listing) \<and>
      (\<forall>r \<in> set recs.
         (node_metrics_map any_metrics (NodeMetrics.name r) = None \<longrightarrow>
            NodeMetrics.cpu_usage r = ''N/A'' \<and> NodeMetrics.memory_usage r = ''N/A'') \<and>
         (\<forall>u. node_metrics_map any_metrics (NodeMetrics.name r) = Some u \<longrightarrow>
            NodeMetrics.cpu_usage r = fst u \<and> NodeMetrics.memory_usage r = snd u))) \<and>
   (\<forall>recs. get_pods_metrics L E scope pod_listing any_pod_metrics = Inr recs \<longrightarrow>
      length recs = length (listed_items L pod_listing) \<and>
      (\<forall>r \<in> set recs.
         (pod_metrics_map scope any_pod_metrics (pod_key scope r) = None \<longrightarrow>
            PodMetrics.cpu_usage r = ''N/A'' \<and> PodMetrics.memory_usage r = ''N/A'') \<and>
         (\<forall>u. pod_metrics_map scope any_pod_metrics (pod_key scope r) = Some u \<longrightarrow>
            PodMetrics.cpu_usage r = fst u \<and> PodMetrics.memory_usage r = snd u)))"
  using nodes_unusable_part [of metrics L E listing]
    pods_unusable_part [of scope pod_metrics L E pod_listing]
    nodes_join_part [of L E listing any_metrics]
    pods_join_part [of L E scope pod_listing any_pod_metrics]
  by (intro conjI)

text \<open>
  Two listed nodes; the snapshot that would give \<open>n1\<close> its usage came back with return
  code 1: both records are built, with "N/A".
\<close>

lemma built_records_join_snapshot_example:
  "node_snapshot_unusable (''n1 10m 20Mi'', ''error'', 1) \<and>
   get_nodes_metrics example_loads example_elapsed (''nodes'', [], 0)
       (''n1 10m 20Mi'', ''error'', 1) =
     Inr [\<lparr>NodeMetrics.name = ''n1'', cpu_usage = ''N/A'', memory_usage = ''N/A'',
           disk_usage = ''N/A'', status = ''Ready'', age = ''1d'', version = ''v1.29.0'',
           instance_type = None, zone = None\<rparr>,
          \<lparr>NodeMetrics.name = ''n2'', cpu_usage = ''N/A'', memory_usage = ''N/A'',
           disk_usage = ''N/A'', status = ''Ready'', age = ''1d'', version = ''v1.29.0'',
           instance_type = None, zone = None\<rparr>]"
proof -
  have u: "node_snapshot_unusable (''n1 10m 20Mi'', ''error'', 1)"
    by (simp add: node_snapshot_unusable_def)
  have g: "get_nodes_metrics example_loads example_elapsed (''nodes'', [], 0)
       (''n1 10m 20Mi'', [], 0) =
     Inr [\<lparr>NodeMetrics.name = ''n1'', cpu_usage = ''10m'', memory_usage = ''20Mi'',
           disk_usage = ''N/A'', status = ''Ready'', age = ''1d'', version = ''v1.29.0'',
           instance_type = None, zone = None\<rparr>,
          \<lparr>NodeMetrics.name = ''n2'', cpu_usage = ''N/A'', memory_usage = ''N/A'',
           disk_usage = ''N/A'', status = ''Ready'', age = ''1d'', version = ''v1.29.0'',
           instance_type = None, zone = None\<rparr>]"
    by code_simp
  from built_records_join_snapshot
         [of "(''n1 10m 20Mi'', ''error'', 1)" example_loads example_elapsed
             "(''nodes'', [], 0)"] u g
  show ?thesis by simp
qed


text \<open>
  A snapshot that failed or has no parseable line acts as no snapshot at all, whatever
  the listing: the run with it is the run with an empty snapshot of return code 1.
\<close>

lemma unusable_node_snapshot_as_none:
  assumes "node_snapshot_unusable metrics"
  shows "get_nodes_metrics L E listing metrics = get_nodes_metrics L E listing ([], [], 1)"
proof -
  have "node_metrics_map metrics = node_metrics_map ([], [], 1)"
    using node_metrics_map_unusable [OF assms] by (simp add: node_metrics_map_def)
  then show ?thesis
    by (cases listing) (simp only: get_nodes_metrics_def)
qed

lemma unusable_pod_snapshot_as_none:
  assumes "pod_snapshot_unusable scope metrics"
  shows "get_pods_metrics L E scope listing metrics =
           get_pods_metrics L E scope listing ([], [], 1)"
proof -
  have "pod_metrics_map scope metrics = pod_metrics_map scope ([], [], 1)"
    using pod_metrics_map_unusable [OF assms] by (simp add: pod_metrics_map_def)
  then show ?thesis
    by (cases listing) (simp only: get_pods_metrics_def)
qed

text \<open>
  White space is Python's: a line whose three fields are separated by no-break spaces
  (U+00A0) has three fields.
\<close>

lemma split_ws_no_break_space:
  "split_ws (''n1'' @ [CHR 0xC2, CHR 0xA0] @ ''10m'' @ [CHR 0xC2, CHR 0xA0] @ ''20Mi'')
     = [''n1'', ''10m'', ''20Mi'']"
  "strip ([CHR 0xE2, CHR 0x80, CHR 0x83] @ '' n1 10m '' @ [CHR 0xC2, CHR 0x85, CHR 0x0A])
     = ''n1 10m''"
  by code_simp+

lemma example_snapshot_failed:
  "node_snapshot_unusable ([], ''error'', 1)"
  "pod_snapshot_unusable ''all'' ([], ''error'', 1)"
  by (simp_all add: node_snapshot_unusable_def pod_snapshot_unusable_def)

text \<open>
  Claim C4 says that for every node and pod listing a usage snapshot that failed (a
  non-zero return code) or has no parseable line still yields one record per listed
  item, each with "N/A" as CPU and memory usage, and that no exception escapes. The join
  itself raises nothing, but the listing is read in the same loop: with a snapshot of
  return code 1 (the two snapshots of the lemma above) and a listing whose one item lacks \<^verbatim>\<open>metadata.name\<close>, the subscript of
  line 163 raises KeyError, which only \<^verbatim>\<open>except json.JSONDecodeError\<close> (line 191)
  stands against. No record is returned for the one listed item, and the same exception
  leaves the health analysis. A decoding failure other than JSONDecodeError leaves
  \<open>get_pods_metrics\<close> in the same way.
\<close>

theorem failed_snapshot_nameless_node_raises:
  "length (listed_items example_loads (''nameless'', [], 0)) = 1 \<and>
   get_nodes_metrics example_loads example_elapsed (''nameless'', [], 0) ([], ''error'', 1)
     = Inl (KeyError ''name'') \<and>
   fetch_and_analyze example_loads example_elapsed (''nameless'', [], 0) ([], ''error'', 1)
       (''pods'', [], 0) ([], ''error'', 1)
     = Inl (KeyError ''name'') \<and>
   get_pods_metrics example_loads example_elapsed ''all'' (''deep'', [], 0) ([], ''error'', 1)
     = Inl RecursionError"
  by code_simp

section \<open>A listing item without a name\<close>

text \<open>
  Claim C3 says that no payload shape makes record construction or health analysis
  raise. The code catches only the decoding error of \<^verbatim>\<open>json.loads\<close>: on a node item
  that lacks \<^verbatim>\<open>metadata.name\<close> the subscript of line 163 raises KeyError, which leaves
  \<open>get_nodes_metrics\<close> and, uncaught there as well, the health analysis.
\<close>

theorem nameless_node_raises_KeyError:
  "get_nodes_metrics example_loads example_elapsed (''nameless'', [], 0) ([], [], 0)
     = Inl (KeyError ''name'') \<and>
   fetch_and_analyze example_loads example_elapsed (''nameless'', [], 0) ([], [], 0)
       (''pods'', [], 0) ([], [], 0)
     = Inl (KeyError ''name'')"
  by code_simp

section \<open>Probe failures of the autoscaler inspector\<close>

text \<open>
  Claim C7 says that a failed probe, by a non-zero return code as by a malformed payload,
  leaves every later field unpopulated and appends the error to the issues. A non-zero
  return code of the node-pool probe does neither: here the node-pool probe returns 1,
  the later probe of the labelled nodes still fills \<open>provisioned_nodes\<close> and the issues
  stay empty.
\<close>

theorem failed_nodepool_probe_counterexample:
  "karpenter_analysis.provisioned_nodes
     (analyze_karpenter example_loads example_exc_str
        (''deployment'', [], 0) ([], ''error'', 1) (''nodes'', [], 0)) = 2 \<and>
   karpenter_analysis.node_pools
     (analyze_karpenter example_loads example_exc_str
        (''deployment'', [], 0) ([], ''error'', 1) (''nodes'', [], 0)) = [] \<and>
   karpenter_analysis.issues
     (analyze_karpenter example_loads example_exc_str
        (''deployment'', [], 0) ([], ''error'', 1) (''nodes'', [], 0)) = []"
  by code_simp

text \<open>
  Claim C7, amended. The inspector always returns its dict. A malformed payload (an
  exception) at a probe ends the inspection: the fields filled by the earlier probes
  remain, the field of the failing probe and of the later ones keep their defaults, and
  "Error analyzing Karpenter: " followed by the text of the exception is the one issue
  appended. A non-zero return code is not an error: at the deployment probe the defaults
  are returned (not installed, no issue); at the node-pool probe or at the probe of the
  labelled nodes only that probe's field keeps its default, no issue is appended and the
  later probe still runs.
\<close>

theorem karpenter_probe_failures:
  "(snd (snd dep) \<noteq> 0 \<longrightarrow> analyze_karpenter L S dep np lab = karpenter_initial) \<and>
   (snd (snd dep) = 0 \<and> deployment_version L (fst dep) = Inl e \<longrightarrow>
      analyze_karpenter L S dep np lab =
        \<lparr>karpenter_analysis.installed = True, version = None, node_pools = [],
         provisioned_nodes = 0, issues = [''Error analyzing Karpenter: '' @ S e],
         recommendations = []\<rparr>) \<and>
   (snd (snd dep) = 0 \<and> deployment_version L (fst dep) = Inr v \<and>
    snd (snd np) = 0 \<and> list_node_pools L (fst np) = Inl e \<longrightarrow>
      analyze_karpenter L S dep np lab =
        \<lparr>karpenter_analysis.installed = True, version = v, node_pools = [],
         provisioned_nodes = 0, issues = [''Error analyzing Karpenter: '' @ S e],
         recommendations = []\<rparr>) \<and>
   (snd (snd dep) = 0 \<and> deployment_version L (fst dep) = Inr v \<and>
    (snd (snd np) = 0 \<and> list_node_pools L (fst np) = Inr pools \<or>
     snd (snd np) \<noteq> 0 \<and> pools = []) \<and>
    snd (snd lab) = 0 \<and> count_provisioned L (fst lab) = Inl e \<longrightarrow>
      analyze_karpenter L S dep np lab =
        \<lparr>karpenter_analysis.installed = True, version = v, node_pools = pools,
         provisioned_nodes = 0, issues = [''Error analyzing Karpenter: '' @ S e],
         recommendations = []\<rparr>) \<and>
   (snd (snd dep) = 0 \<and> deployment_version L (fst dep) = Inr v \<and>
    (snd (snd np) = 0 \<and> list_node_pools L (fst np) = Inr pools \<or>
     snd (snd np) \<noteq> 0 \<and> pools = []) \<and>
    (snd (snd lab) = 0 \<and> count_provisioned L (fst lab) = Inr n \<or>
     snd (snd lab) \<noteq> 0 \<and> n = 0) \<longrightarrow>
      analyze_karpenter L S dep np lab =
        \<lparr>karpenter_analysis.installed = True, version = v, node_pools = pools,
         provisioned_nodes = n, issues = [], recommendations = []\<rparr>)"
proof (intro conjI impI)
  assume "snd (snd dep) \<noteq> 0"
  then show "analyze_karpenter L S dep np lab = karpenter_initial"
    by (simp add: analyze_karpenter_def)
next
  assume "snd (snd dep) = 0 \<and> deployment_version L (fst dep) = Inl e"
  then show "analyze_karpenter L S dep np lab =
        \<lparr>karpenter_analysis.installed = True, version = None, node_pools = [],
         provisioned_nodes = 0, issues = [''Error analyzing Karpenter: '' @ S e],
         recommendations = []\<rparr>"
    by (simp add: analyze_karpenter_def karpenter_failed_def karpenter_initial_def)
next
  assume "snd (snd dep) = 0 \<and> deployment_version L (fst dep) = Inr v \<and>
    snd (snd np) = 0 \<and> list_node_pools L (fst np) = Inl e"
  then show "analyze_karpenter L S dep np lab =
        \<lparr>karpenter_analysis.installed = True, version = v, node_pools = [],
         provisioned_nodes = 0, issues = [''Error analyzing Karpenter: '' @ S e],
         recommendations = []\<rparr>"
    by (cases v)
       (simp_all add: analyze_karpenter_def karpenter_failed_def karpenter_initial_def
          and_then_def)
next
  assume "snd (snd dep) = 0 \<and> deployment_version L (fst dep) = Inr v \<and>
    (snd (snd np) = 0 \<and> list_node_pools L (fst np) = Inr pools \<or>
     snd (snd np) \<noteq> 0 \<and> pools = []) \<and>
    snd (snd lab) = 0 \<and> count_provisioned L (fst lab) = Inl e"
  then show "analyze_karpenter L S dep np lab =
        \<lparr>karpenter_analysis.installed = True, version = v, node_pools = pools,
         provisioned_nodes = 0, issues = [''Error analyzing Karpenter: '' @ S e],
         recommendations = []\<rparr>"
    by (cases v)
       (auto simp add: analyze_karpenter_def karpenter_failed_def karpenter_initial_def
          and_then_def)
next
  assume "snd (snd dep) = 0 \<and> deployment_version L (fst dep) = Inr v \<and>
    (snd (snd np) = 0 \<and> list_node_pools L (fst np) = Inr pools \<or>
     snd (snd np) \<noteq> 0 \<and> pools = []) \<and>
    (snd (snd lab) = 0 \<and> count_provisioned L (fst lab) = Inr n \<or>
     snd (snd lab) \<noteq> 0 \<and> n = 0)"
  then show "analyze_karpenter L S dep np lab =
        \<lparr>karpenter_analysis.installed = True, version = v, node_pools = pools,
         provisioned_nodes = n, issues = [], recommendations = []\<rparr>"
    by (cases v)
       (auto simp add: analyze_karpenter_def karpenter_failed_def karpenter_initial_def
          and_then_def)
qed


text \<open>
  The deployment decodes and gives the version; the node-pool listing holds a pool
  without metadata; the probe of the labelled nodes would have counted two nodes.
\<close>

theorem karpenter_probe_failures_witness:
  "analyze_karpenter example_loads example_exc_str
      (''deployment'', [], 0) (''nodepools'', [], 0) (''nodes'', [], 0) =
     \<lparr>karpenter_analysis.installed = True, version = Some ''v0.32.1'', node_pools = [],
      provisioned_nodes = 0,
      issues = [''Error analyzing Karpenter: '' @ [CHR 0x27] @ ''metadata'' @ [CHR 0x27]],
      recommendations = []\<rparr>"
proof -
  have d: "deployment_version example_loads ''deployment'' = Inr (Some ''v0.32.1'')"
    by code_simp
  have p: "list_node_pools example_loads ''nodepools'' = Inl (KeyError ''metadata'')"
    by code_simp
  from karpenter_probe_failures
         [of "(''deployment'', [], 0)" example_loads example_exc_str
             "(''nodepools'', [], 0)" "(''nodes'', [], 0)" "KeyError ''metadata''"
             "Some ''v0.32.1''"] d p
  show ?thesis by (simp add: example_exc_str_def)
qed

text \<open>
  The GitOps inspector catches every exception: an application without
  \<^verbatim>\<open>spec.source.repoURL\<close> ends its loop, and the summaries built before it are returned.
\<close>

lemma application_without_repo_absorbed:
  "get_argocd_status example_loads (''applications'', [], 0) =
     \<lparr>argocd_status.installed = True,
      applications = [\<lparr>app_name = JStr ''shop'', app_health = JStr ''Healthy'',
                       app_sync = JStr ''OutOfSync'',
                       app_repo = JStr ''https://git.example/repo''\<rparr>],
      health_status = ''Unknown'', sync_status = ''Unknown''\<rparr>"
  by code_simp

section \<open>The sections of the markdown report\<close>

lemma if_append_both: "(if c then r @ x else r @ y) = r @ (if c then x else y)"
  by simp

lemma if_append_one: "(if c then r @ x else r) = r @ (if c then x else [])"
  by simp

lemma if_nonempty_swap: "(if xs \<noteq> [] then a else b) = (if xs = [] then b else a)"
  by simp

lemma markdown_sections:
  "generate_markdown_report fmt_1f py_repr now provider health nodes pods karpenter argocd
       include_recommendations =
     report_title @ strftime_seconds now
       @ report_summary fmt_1f provider health nodes
       @ (if problem_pods pods = [] then []
      else ''\<newline>## '' @ emoji_rotating_light @ '' Problem Pods ('' @ str_int (int (length (problem_pods pods))) @ '' pods)\<newline>\<newline>''
        @ ''| Name | Namespace | Status | Restarts | Node |\<newline>''
        @ ''|------|-----------|--------|----------|------|\<newline>''
        @ concat (map pod_row (take 20 (problem_pods pods))))
       @ report_addons py_repr health karpenter argocd include_recommendations"
proof -
  have flip: "(if problem_pods pods = [] then []
      else ''\<newline>## '' @ emoji_rotating_light @ '' Problem Pods ('' @ str_int (int (length (problem_pods pods))) @ '' pods)\<newline>\<newline>''
        @ ''| Name | Namespace | Status | Restarts | Node |\<newline>''
        @ ''|------|-----------|--------|----------|------|\<newline>''
        @ concat (map pod_row (take 20 (problem_pods pods)))) =
      (if problem_pods pods \<noteq> []
      then ''\<newline>## '' @ emoji_rotating_light @ '' Problem Pods ('' @ str_int (int (length (problem_pods pods))) @ '' pods)\<newline>\<newline>''
        @ ''| Name | Namespace | Status | Restarts | Node |\<newline>''
        @ ''|------|-----------|--------|----------|------|\<newline>''
        @ concat (map pod_row (take 20 (problem_pods pods)))
      else [])"
    by (rule if_nonempty_swap [symmetric])
  show ?thesis
    unfolding flip
    by (simp only: generate_markdown_report_def report_title_def report_summary_def
          report_addons_def Let_def if_append_both if_append_one append_assoc)
qed

text \<open>
  Claim C10. In the markdown report the pod list shows only in the "Problem Pods"
  section: the report is a text before the section, the section, and a text after it,
  and the two texts do not depend on the pods. The section is empty (no header, no
  table, no "none" line) when no pod has a status other than "Running" or more than 5
  restarts; otherwise it is the header with the number of such pods, the head of the
  table, and one row for each of the first 20 such pods, in the order of the input.
\<close>

theorem problem_pods_section:
  "(\<exists>before after. \<forall>pods.
      generate_markdown_report fmt_1f py_repr now provider health nodes pods karpenter
          argocd include_recommendations =
        before
          @ (if problem_pods pods = [] then []
      else ''\<newline>## '' @ emoji_rotating_light @ '' Problem Pods ('' @ str_int (int (length (problem_pods pods))) @ '' pods)\<newline>\<newline>''
        @ ''| Name | Namespace | Status | Restarts | Node |\<newline>''
        @ ''|------|-----------|--------|----------|------|\<newline>''
        @ concat (map pod_row (take 20 (problem_pods pods))))
          @ after) \<and>
   problem_pods pods =
     filter (\<lambda>pod. PodMetrics.status pod \<noteq> ''Running'' \<or> PodMetrics.restarts pod > 5) pods \<and>
   subseq (problem_pods pods) pods \<and>
   prefix (take 20 (problem_pods pods)) (problem_pods pods) \<and>
   length (take 20 (problem_pods pods)) = min 20 (length (problem_pods pods))"
proof (intro conjI)
  show "\<exists>before after. \<forall>pods.
      generate_markdown_report fmt_1f py_repr now provider health nodes pods karpenter
          argocd include_recommendations =
        before
          @ (if problem_pods pods = [] then []
      else ''\<newline>## '' @ emoji_rotating_light @ '' Problem Pods ('' @ str_int (int (length (problem_pods pods))) @ '' pods)\<newline>\<newline>''
        @ ''| Name | Namespace | Status | Restarts | Node |\<newline>''
        @ ''|------|-----------|--------|----------|------|\<newline>''
        @ concat (map pod_row (take 20 (problem_pods pods))))
          @ after"
    apply (rule exI [of _ "report_title @ strftime_seconds now
             @ report_summary fmt_1f provider health nodes"])
    apply (rule exI [of _ "report_addons py_repr health karpenter argocd
             include_recommendations"])
    apply (simp only: markdown_sections append_assoc)
    apply simp
    done
  show "problem_pods pods =
     filter (\<lambda>pod. PodMetrics.status pod \<noteq> ''Running'' \<or> PodMetrics.restarts pod > 5) pods"
    by (simp add: problem_pods_def)
  show "subseq (problem_pods pods) pods"
    by (simp add: problem_pods_def)
  show "prefix (take 20 (problem_pods pods)) (problem_pods pods)"
    by (rule take_is_prefix)
  show "length (take 20 (problem_pods pods)) = min 20 (length (problem_pods pods))"
    by simp
qed

text \<open>
  Three pods: one running with no restart, one pending, one running with 7 restarts.
  The section lists the last two, in that order.
\<close>

theorem problem_pods_section_witness:
  "problem_pods [example_pod_record ''web'' ''Running'' 0,
                 example_pod_record ''job'' ''Pending'' 0,
                 example_pod_record ''api'' ''Running'' 7]
     = [example_pod_record ''job'' ''Pending'' 0, example_pod_record ''api'' ''Running'' 7] \<and>
   (\<exists>before after.
      generate_markdown_report example_fmt_1f example_repr example_now EKS
          (analyze_cluster_health [] []) []
          [example_pod_record ''web'' ''Running'' 0,
           example_pod_record ''job'' ''Pending'' 0,
           example_pod_record ''api'' ''Running'' 7]
          karpenter_initial argocd_initial True =
        before
          @ ''\<newline>## '' @ emoji_rotating_light @ '' Problem Pods (2 pods)\<newline>\<newline>''
          @ ''| Name | Namespace | Status | Restarts | Node |\<newline>''
          @ ''|------|-----------|--------|----------|------|\<newline>''
          @ ''| job | default | Pending | 0 | n1 |\<newline>''
          @ ''| api | default | Running | 7 | n1 |\<newline>''
          @ after)"
proof -
  let ?pods = "[example_pod_record ''web'' ''Running'' 0,
                example_pod_record ''job'' ''Pending'' 0,
                example_pod_record ''api'' ''Running'' 7]"
  have p: "problem_pods ?pods
     = [example_pod_record ''job'' ''Pending'' 0, example_pod_record ''api'' ''Running'' 7]"
    by (simp add: problem_pods_def example_pod_record_def)
  have r: "pod_row (example_pod_record ''job'' ''Pending'' 0)
             = ''| job | default | Pending | 0 | n1 |\<newline>''"
          "pod_row (example_pod_record ''api'' ''Running'' 7)
             = ''| api | default | Running | 7 | n1 |\<newline>''"
    by (simp_all add: pod_row_def example_pod_record_def str_int_def str_nat.simps
          digit_char_def)
  have n: "str_int (int (length [example_pod_record ''job'' ''Pending'' 0,
             example_pod_record ''api'' ''Running'' 7])) = ''2''"
    by (simp add: str_int_def str_nat.simps digit_char_def)
  from problem_pods_section
         [of example_fmt_1f example_repr example_now EKS "analyze_cluster_health [] []" "[]"
             karpenter_initial argocd_initial True ?pods]
  obtain before after where
    "\<forall>pods. generate_markdown_report example_fmt_1f example_repr example_now EKS
          (analyze_cluster_health [] []) [] pods karpenter_initial argocd_initial True =
        before
          @ (if problem_pods pods = [] then []
      else ''\<newline>## '' @ emoji_rotating_light @ '' Problem Pods ('' @ str_int (int (length (problem_pods pods))) @ '' pods)\<newline>\<newline>''
        @ ''| Name | Namespace | Status | Restarts | Node |\<newline>''
        @ ''|------|-----------|--------|----------|------|\<newline>''
        @ concat (map pod_row (take 20 (problem_pods pods))))
          @ after"
    by blast
  then have "generate_markdown_report example_fmt_1f example_repr example_now EKS
          (analyze_cluster_health [] []) [] ?pods karpenter_initial argocd_initial True =
        before
          @ (if problem_pods ?pods = [] then []
      else ''\<newline>## '' @ emoji_rotating_light @ '' Problem Pods ('' @ str_int (int (length (problem_pods ?pods))) @ '' pods)\<newline>\<newline>''
        @ ''| Name | Namespace | Status | Restarts | Node |\<newline>''
        @ ''|------|-----------|--------|----------|------|\<newline>''
        @ concat (map pod_row (take 20 (problem_pods ?pods))))
          @ after"
    by (rule spec)
  then have "generate_markdown_report example_fmt_1f example_repr example_now EKS
          (analyze_cluster_health [] []) [] ?pods karpenter_initial argocd_initial True =
        before
          @ (''\<newline>## '' @ emoji_rotating_light @ '' Problem Pods (2 pods)\<newline>\<newline>''
          @ ''| Name | Namespace | Status | Restarts | Node |\<newline>''
          @ ''|------|-----------|--------|----------|------|\<newline>''
          @ ''| job | default | Pending | 0 | n1 |\<newline>''
          @ ''| api | default | Running | 7 | n1 |\<newline>'')
          @ after"
    unfolding p n by (simp add: r)
  with p show ?thesis
    by (intro conjI exI [of _ before] exI [of _ after]) simp_all
qed


section \<open>What the structured report holds\<close>

lemma map_JStr_eq: "map JStr xs = map JStr ys \<longleftrightarrow> xs = ys"
  by (rule inj_map_eq_map) (simp add: inj_def)

lemma opt_str_json_eq: "opt_str_json a = opt_str_json b \<longleftrightarrow> a = b"
  by (cases a; cases b) (simp_all add: opt_str_json_def)

lemma health_dict_inj: "health_dict h = health_dict h' \<longleftrightarrow> h = h'"
  by (cases h; cases h') (auto simp add: health_dict_def map_JStr_eq)

lemma node_dict_inj: "node_dict n = node_dict n' \<longleftrightarrow> n = n'"
  by (cases n; cases n') (auto simp add: node_dict_def opt_str_json_eq)

lemma node_pool_dict_inj: "node_pool_dict p = node_pool_dict p' \<longleftrightarrow> p = p'"
  by (cases p; cases p') (auto simp add: node_pool_dict_def)

lemma app_info_dict_inj: "app_info_dict p = app_info_dict p' \<longleftrightarrow> p = p'"
  by (cases p; cases p') (auto simp add: app_info_dict_def)

lemma map_node_dict_eq: "map node_dict xs = map node_dict ys \<longleftrightarrow> xs = ys"
  by (rule inj_map_eq_map) (simp add: inj_def node_dict_inj)

lemma map_node_pool_dict_eq: "map node_pool_dict xs = map node_pool_dict ys \<longleftrightarrow> xs = ys"
  by (rule inj_map_eq_map) (simp add: inj_def node_pool_dict_inj)

lemma map_app_info_dict_eq: "map app_info_dict xs = map app_info_dict ys \<longleftrightarrow> xs = ys"
  by (rule inj_map_eq_map) (simp add: inj_def app_info_dict_inj)

lemma karpenter_dict_inj: "karpenter_dict k = karpenter_dict k' \<longleftrightarrow> k = k'"
  by (cases k; cases k')
     (auto simp add: karpenter_dict_def opt_str_json_eq map_JStr_eq map_node_pool_dict_eq)

lemma argocd_dict_inj: "argocd_dict a = argocd_dict a' \<longleftrightarrow> a = a'"
  by (cases a; cases a') (auto simp add: argocd_dict_def map_app_info_dict_eq)

lemma report_data_inj:
  "report_data now h ns k a = report_data now' h' ns' k' a' \<longleftrightarrow>
     h = h' \<and> ns = ns' \<and> k = k' \<and> a = a' \<and> isoformat now = isoformat now'"
  by (simp add: report_data_def health_dict_inj karpenter_dict_inj argocd_dict_inj
        map_node_dict_eq)


text \<open>
  Claim C2 says that the structured report serializes every part of the bundle, the pod
  list in particular, so that the bundle can be read back from it. The pod list is not
  part of \<open>report_data\<close>: two bundles that differ in their pods (one pod named "web",
  one pod named "api"; the health record of each is the classification of its own pods)
  give the same structured report, in the json and in the yaml format.
\<close>

theorem structured_report_without_pods_counterexample:
  "[example_pod_record ''web'' ''Running'' 0] \<noteq> [example_pod_record ''api'' ''Running'' 0] \<and>
   generate_health_report example_fmt_1f example_repr example_now EKS ''json'' True
       (analyze_cluster_health [] [example_pod_record ''web'' ''Running'' 0]) []
       [example_pod_record ''web'' ''Running'' 0] karpenter_initial argocd_initial =
     generate_health_report example_fmt_1f example_repr example_now EKS ''json'' True
       (analyze_cluster_health [] [example_pod_record ''api'' ''Running'' 0]) []
       [example_pod_record ''api'' ''Running'' 0] karpenter_initial argocd_initial \<and>
   generate_health_report example_fmt_1f example_repr example_now EKS ''yaml'' True
       (analyze_cluster_health [] [example_pod_record ''web'' ''Running'' 0]) []
       [example_pod_record ''web'' ''Running'' 0] karpenter_initial argocd_initial =
     generate_health_report example_fmt_1f example_repr example_now EKS ''yaml'' True
       (analyze_cluster_health [] [example_pod_record ''api'' ''Running'' 0]) []
       [example_pod_record ''api'' ''Running'' 0] karpenter_initial argocd_initial"
proof -
  have h: "analyze_cluster_health [] [example_pod_record ''web'' ''Running'' 0]
         = analyze_cluster_health [] [example_pod_record ''api'' ''Running'' 0]"
    by (simp add: analyze_cluster_health_def Let_def count_where_def high_restart_pods_def
          example_pod_record_def)
  have d: "[example_pod_record ''web'' ''Running'' 0] \<noteq> [example_pod_record ''api'' ''Running'' 0]"
    by (simp add: example_pod_record_def)
  show ?thesis
    using d by (simp add: generate_health_report_def h)
qed

text \<open>
  Claim C2, amended. The data that the json and the yaml format serialize (the argument
  of \<^verbatim>\<open>json.dumps\<close> and of \<^verbatim>\<open>yaml.dump\<close>) holds, untruncated, every field of the
  health record, every node record in order, the two addon results and the text of the
  generation time, and nothing else of the bundle: two structured reports are the same
  exactly when these five agree field for field. So these five are recoverable from the
  structured report; the pod list is not part of it.
\<close>

theorem structured_report_determines_fields:
  "(generate_health_report fmt_1f py_repr now provider ''json'' include_recommendations
        health nodes pods karpenter argocd =
      generate_health_report fmt_1f' py_repr' now' provider' ''json'' include_recommendations'
        health' nodes' pods' karpenter' argocd')
     = (health = health' \<and> nodes = nodes' \<and> karpenter = karpenter' \<and> argocd = argocd' \<and>
        isoformat now = isoformat now') \<and>
   (generate_health_report fmt_1f py_repr now provider ''yaml'' include_recommendations
        health nodes pods karpenter argocd =
      generate_health_report fmt_1f' py_repr' now' provider' ''yaml'' include_recommendations'
        health' nodes' pods' karpenter' argocd')
     = (health = health' \<and> nodes = nodes' \<and> karpenter = karpenter' \<and> argocd = argocd' \<and>
        isoformat now = isoformat now')"
  by (simp add: generate_health_report_def report_data_inj)

section \<open>The clock in the report\<close>

lemma strftime_example_now: "strftime_seconds example_now = ''2024-03-07 09:05:00''"
  by (simp add: strftime_seconds_def example_now_def zfill_def str_nat.simps digit_char_def)

lemma strftime_example_later:
  "strftime_seconds (example_now\<lparr>second := 1\<rparr>) = ''2024-03-07 09:05:01''"
  by (simp add: strftime_seconds_def example_now_def zfill_def str_nat.simps digit_char_def)

text \<open>
  Claim C6 says that the renderer reads no wall clock of its own, so that two runs on
  the same arguments give the same bytes. \<open>generate_markdown_report\<close> has no time
  argument and reads the clock itself (line 711): two runs on the same arguments, one
  second apart, give different reports.
\<close>

theorem renderer_reads_clock_counterexample:
  "generate_markdown_report example_fmt_1f example_repr example_now EKS
       (analyze_cluster_health [] []) [] [] karpenter_initial argocd_initial True \<noteq>
   generate_markdown_report example_fmt_1f example_repr (example_now\<lparr>second := 1\<rparr>) EKS
       (analyze_cluster_health [] []) [] [] karpenter_initial argocd_initial True"
  by (simp only: markdown_sections same_append_eq append_same_eq strftime_example_now
        strftime_example_later)
     simp

text \<open>
  Claim C6, amended. The renderer reads the wall clock itself, once, and the reading
  enters the output only as the time stamp: the markdown report for one reading is the
  report for any other reading with the text after "Generated: " replaced, and the
  structured data for one reading is the data for any other reading with the entry
  \<open>generated_at\<close> replaced. Everything else in the output is a function of the
  arguments (and, in markdown, of the provider of the process-wide client), in the order
  of the input lists.
\<close>

theorem clock_enters_only_the_time_stamp:
  "generate_markdown_report fmt_1f py_repr now provider health nodes pods karpenter argocd
       include_recommendations =
     report_title @ strftime_seconds now
       @ drop (length report_title + length (strftime_seconds now'))
           (generate_markdown_report fmt_1f py_repr now' provider health nodes pods karpenter
              argocd include_recommendations) \<and>
   report_data now health nodes karpenter argocd =
     (case report_data now' health nodes karpenter argocd of
        JObj entries \<Rightarrow> JObj (butlast entries @ [(''generated_at'', JStr (isoformat now))])
      | other \<Rightarrow> other)"
proof
  show "generate_markdown_report fmt_1f py_repr now provider health nodes pods karpenter argocd
       include_recommendations =
     report_title @ strftime_seconds now
       @ drop (length report_title + length (strftime_seconds now'))
           (generate_markdown_report fmt_1f py_repr now' provider health nodes pods karpenter
              argocd include_recommendations)"
    by (simp only: markdown_sections [of _ _ now'] append_assoc [symmetric] length_append [symmetric]
          append_eq_conv_conj drop_append)
       (simp add: markdown_sections)
next
  show "report_data now health nodes karpenter argocd =
     (case report_data now' health nodes karpenter argocd of
        JObj entries \<Rightarrow> JObj (butlast entries @ [(''generated_at'', JStr (isoformat now))])
      | other \<Rightarrow> other)"
    by (simp add: report_data_def)
qed

section \<open>The template of the resource-limits fix\<close>

text \<open>
  Claim C5 says that \<open>generate_resource_fixes\<close> returns a manifest for each of the four
  issue types and an explicit "unsupported" text for any other. The f-string of the
  manifest for "resource_limits" ends, on line 816, with seven closing braces: three
  pairs, each a literal brace, and one brace more, which closes nothing. Python refuses
  the f-string when it compiles the module, so no call of the function returns a text,
  whatever the issue type and whatever the branches after line 820 hold.
\<close>

theorem resource_limits_template_malformed:
  "parse_fstring resource_limits_fstring = Inl SingleClosingBrace \<and>
   generate_resource_fixes later_branches ''resource_limits'' ''web'' ''default''
     = Inl (SyntaxError SingleClosingBrace) \<and>
   generate_resource_fixes later_branches ''unknown_kind'' ''web'' ''default''
     = Inl (SyntaxError SingleClosingBrace)"
proof -
  have "parse_fstring resource_limits_fstring = Inl SingleClosingBrace"
    by code_simp
  then show ?thesis
    by (simp add: generate_resource_fixes_def)
qed


text \<open>
  Without the last of the seven braces the template is well formed: the slip is that one
  character.
\<close>

lemma resource_limits_template_one_brace_less:
  "(case parse_fstring
           (take (length resource_limits_fstring - 3) resource_limits_fstring
              @ [CHR 0x27, CHR 0x0A]) of
      Inl err \<Rightarrow> False
    | Inr template \<Rightarrow>
        map (\<lambda>p. case p of Text s \<Rightarrow> [] | Replacement f \<Rightarrow> f) template =
          [[], ''target'', [], ''target'', [], ''namespace'', [], ''target'', [],
           ''namespace'', [], ''target'', []])"
  by code_simp

end
